theory Spec2Isabelle
  imports Complex_Main
begin

section \<open>JavaScript values as the validators see them\<close>

text \<open>
  The validators of \<^verbatim>\<open>src/index.ts\<close> receive \<^verbatim>\<open>unknown\<close> values (parsed JSON) and
  inspect them with \<^verbatim>\<open>typeof\<close>, truthiness, \<^verbatim>\<open>Array.isArray\<close> and property reads.
  TypeScript's types are erased at run time, so both the input and the output of a
  validator are plain JavaScript values.  An object is an association list of its own
  properties in insertion order; a property read finds the binding of the key or yields
  \<^verbatim>\<open>undefined\<close>.  A number is the rational it denotes (every finite double is one;
  \<^verbatim>\<open>NaN\<close> does not occur in parsed JSON).
\<close>

datatype jsval =
    JUndefined
  | JNull
  | JBool bool
  | JNum rat
  | JStr string
  | JArr "jsval list"
  | JObj "(string \<times> jsval) list"

datatype jstype = TUndefined | TObject | TBoolean | TNumber | TString

fun typeof :: "jsval \<Rightarrow> jstype" where
  "typeof JUndefined = TUndefined"
| "typeof JNull = TObject"
| "typeof (JBool b) = TBoolean"
| "typeof (JNum n) = TNumber"
| "typeof (JStr s) = TString"
| "typeof (JArr xs) = TObject"
| "typeof (JObj fs) = TObject"

fun truthy :: "jsval \<Rightarrow> bool" where
  "truthy JUndefined = False"
| "truthy JNull = False"
| "truthy (JBool b) = b"
| "truthy (JNum n) = (n \<noteq> 0)"
| "truthy (JStr s) = (s \<noteq> [])"
| "truthy (JArr xs) = True"
| "truthy (JObj fs) = True"

fun isArray :: "jsval \<Rightarrow> bool" where
  "isArray (JArr xs) = True"
| "isArray v = False"

fun elems :: "jsval \<Rightarrow> jsval list" where
  "elems (JArr xs) = xs"
| "elems v = []"

text \<open>
  \<^verbatim>\<open>v.k\<close> for a value that is neither \<^verbatim>\<open>null\<close> nor \<^verbatim>\<open>undefined\<close>, and a key that
  is no built-in property (the validators read none): the own property of an object,
  \<^verbatim>\<open>undefined\<close> on everything else.
\<close>

fun field :: "jsval \<Rightarrow> string \<Rightarrow> jsval" where
  "field (JObj fs) k = (case map_of fs k of Some v \<Rightarrow> v | None \<Rightarrow> JUndefined)"
| "field v k = JUndefined"

fun nullish :: "jsval \<Rightarrow> bool" where
  "nullish JUndefined = True"
| "nullish JNull = True"
| "nullish v = False"

fun own_keys :: "jsval \<Rightarrow> string set" where
  "own_keys (JObj fs) = fst ` set fs"
| "own_keys v = {}"

section \<open>Thrown values\<close>

datatype error_code = InvalidParams | MethodNotFound | InternalError

text \<open>
  What a \<^verbatim>\<open>throw\<close> can carry here: the protocol error \<^verbatim>\<open>McpError(code, text)\<close>, the
  HTTP client's error (with the upstream \<^verbatim>\<open>response.data.message\<close> when there is one,
  and its own message), the \<^verbatim>\<open>TypeError\<close> of a property read on \<^verbatim>\<open>null\<close> or
  \<^verbatim>\<open>undefined\<close>, and a plain \<^verbatim>\<open>Error\<close>.  The text of an \<^verbatim>\<open>McpError\<close> is the text
  given to its constructor (the SDK class may decorate it; no property below depends on
  the text of a rewrapped error).
\<close>

datatype thrown =
    McpError error_code string
  | AxiosError "string option" string
  | TypeError string
  | JsError string

fun isAxiosError :: "thrown \<Rightarrow> bool" where
  "isAxiosError (AxiosError r m) = True"
| "isAxiosError e = False"

fun message :: "thrown \<Rightarrow> string" where
  "message (McpError c m) = m"
| "message (AxiosError r m) = m"
| "message (TypeError m) = m"
| "message (JsError m) = m"

text \<open>The engine's \<^verbatim>\<open>TypeError\<close> for reading property \<open>k\<close> of \<^verbatim>\<open>null\<close> or \<^verbatim>\<open>undefined\<close>.\<close>

definition cannot_read :: "jsval \<Rightarrow> string \<Rightarrow> thrown" where
  "cannot_read v k =
     TypeError (''Cannot read properties of ''
       @ (if v = JNull then ''null'' else ''undefined'')
       @ '' (reading '' @ [CHR 0x27] @ k @ [CHR 0x27] @ '')'')"

text \<open>
  \<^verbatim>\<open>xs.map(f)\<close> with a callback that may throw: elements are visited from the left and
  the first throw ends the whole call.
\<close>

fun map_throw :: "('a \<Rightarrow> thrown + 'b) \<Rightarrow> 'a list \<Rightarrow> thrown + 'b list" where
  "map_throw f [] = Inr []"
| "map_throw f (x # xs) =
     (case f x of
        Inl e \<Rightarrow> Inl e
      | Inr y \<Rightarrow> (case map_throw f xs of Inl e \<Rightarrow> Inl e | Inr ys \<Rightarrow> Inr (y # ys)))"

text \<open>\<^verbatim>\<open>if (typeof src.k === 'string') out.k = src.k\<close>, as the property it adds.\<close>

definition copy_string :: "jsval \<Rightarrow> string \<Rightarrow> (string \<times> jsval) list" where
  "copy_string src k = (if typeof (field src k) = TString then [(k, field src k)] else [])"

definition copy_number :: "jsval \<Rightarrow> string \<Rightarrow> (string \<times> jsval) list" where
  "copy_number src k = (if typeof (field src k) = TNumber then [(k, field src k)] else [])"

text \<open>The number a value of type \<^verbatim>\<open>number\<close> holds (read only after \<^verbatim>\<open>typeof v === 'number'\<close>).\<close>

fun num_of :: "jsval \<Rightarrow> rat" where
  "num_of (JNum n) = n"
| "num_of v = 0"

definition invalid :: "string \<Rightarrow> thrown + 'a" where
  "invalid msg = Inl (McpError InvalidParams msg)"

section \<open>The validators\<close>

subsection \<open>\<^verbatim>\<open>validatePaymentToken\<close>\<close>

definition validatePaymentToken :: "jsval \<Rightarrow> thrown + jsval" where
  "validatePaymentToken args =
     (if typeof args \<noteq> TObject \<or> \<not> truthy args then invalid ''Invalid payment token data''
      else
        let customer = field args ''customer''; source = field args ''payment_source'' in
        if \<not> truthy customer \<or> typeof customer \<noteq> TObject \<or>
           \<not> truthy source \<or> typeof source \<noteq> TObject
        then invalid ''Missing required payment token fields''
        else if typeof (field customer ''id'') \<noteq> TString then invalid ''Invalid customer ID''
        else
          let cardObj = field source ''card''; paypal = field source ''paypal'' in
          Inr (JObj
            [(''customer'', JObj ((''id'', field customer ''id'') # copy_string customer ''email_address'')),
             (''payment_source'', JObj (
                (if truthy cardObj \<and> typeof cardObj = TObject \<and>
                    typeof (field cardObj ''name'') = TString \<and>
                    typeof (field cardObj ''number'') = TString \<and>
                    typeof (field cardObj ''expiry'') = TString \<and>
                    typeof (field cardObj ''security_code'') = TString
                 then [(''card'', JObj [(''name'', field cardObj ''name''),
                                        (''number'', field cardObj ''number''),
                                        (''expiry'', field cardObj ''expiry''),
                                        (''security_code'', field cardObj ''security_code'')])]
                 else [])
                @ (if truthy paypal \<and> typeof paypal = TObject \<and>
                      typeof (field paypal ''email_address'') = TString
                   then [(''paypal'', JObj ((''email_address'', field paypal ''email_address'')
                                            # copy_string paypal ''account_id''))]
                   else [])))]))"

subsection \<open>\<^verbatim>\<open>validatePayment\<close>\<close>

text \<open>The callback of \<^verbatim>\<open>payment.transactions.map\<close>.\<close>

definition validateTransaction :: "jsval \<Rightarrow> thrown + jsval" where
  "validateTransaction transaction =
     (if nullish transaction then Inl (cannot_read transaction ''amount'')
      else
        let amount = field transaction ''amount'' in
        if \<not> truthy amount \<or> typeof amount \<noteq> TObject then invalid ''Invalid transaction amount''
        else if typeof (field amount ''total'') \<noteq> TString \<or> typeof (field amount ''currency'') \<noteq> TString
        then invalid ''Invalid amount fields''
        else Inr (JObj ((''amount'', JObj [(''total'', field amount ''total''),
                                           (''currency'', field amount ''currency'')])
                        # copy_string transaction ''description'')))"

definition validatePayment :: "jsval \<Rightarrow> thrown + jsval" where
  "validatePayment args =
     (if typeof args \<noteq> TObject \<or> \<not> truthy args then invalid ''Invalid payment data''
      else
        let payer = field args ''payer''; transactions = field args ''transactions'' in
        if typeof (field args ''intent'') \<noteq> TString \<or>
           \<not> truthy payer \<or> typeof payer \<noteq> TObject \<or>
           \<not> isArray transactions \<or> length (elems transactions) = 0
        then invalid ''Missing required payment fields''
        else if typeof (field payer ''payment_method'') \<noteq> TString then invalid ''Invalid payment method''
        else
          case map_throw validateTransaction (elems transactions) of
            Inl e \<Rightarrow> Inl e
          | Inr ts \<Rightarrow>
              Inr (JObj [(''intent'', field args ''intent''),
                         (''payer'', JObj [(''payment_method'', field payer ''payment_method''),
                                           (''funding_instruments'', field payer ''funding_instruments'')]),
                         (''transactions'', JArr ts)]))"

subsection \<open>\<^verbatim>\<open>validatePayout\<close>\<close>

text \<open>The callback of \<^verbatim>\<open>payout.items.map\<close>.\<close>

definition validatePayoutItem :: "jsval \<Rightarrow> thrown + jsval" where
  "validatePayoutItem payoutItem =
     (if nullish payoutItem then Inl (cannot_read payoutItem ''recipient_type'')
      else
        let amount = field payoutItem ''amount'' in
        if typeof (field payoutItem ''recipient_type'') \<noteq> TString \<or>
           \<not> truthy amount \<or> typeof amount \<noteq> TObject \<or>
           typeof (field payoutItem ''receiver'') \<noteq> TString
        then invalid ''Invalid payout item''
        else if typeof (field amount ''value'') \<noteq> TString \<or> typeof (field amount ''currency'') \<noteq> TString
        then invalid ''Invalid amount fields''
        else Inr (JObj ([(''recipient_type'', field payoutItem ''recipient_type''),
                         (''amount'', JObj [(''value'', field amount ''value''),
                                            (''currency'', field amount ''currency'')]),
                         (''receiver'', field payoutItem ''receiver'')]
                        @ copy_string payoutItem ''note''
                        @ copy_string payoutItem ''sender_item_id'')))"

definition validatePayout :: "jsval \<Rightarrow> thrown + jsval" where
  "validatePayout args =
     (if typeof args \<noteq> TObject \<or> \<not> truthy args then invalid ''Invalid payout data''
      else
        let header = field args ''sender_batch_header''; items = field args ''items'' in
        if \<not> truthy header \<or> typeof header \<noteq> TObject \<or>
           \<not> isArray items \<or> length (elems items) = 0
        then invalid ''Missing required payout fields''
        else if typeof (field header ''sender_batch_id'') \<noteq> TString then invalid ''Invalid sender batch ID''
        else
          case map_throw validatePayoutItem (elems items) of
            Inl e \<Rightarrow> Inl e
          | Inr its \<Rightarrow>
              Inr (JObj [(''sender_batch_header'', JObj
                           [(''sender_batch_id'', field header ''sender_batch_id''),
                            (''email_subject'',
                               if typeof (field header ''email_subject'') = TString
                               then field header ''email_subject'' else JUndefined),
                            (''recipient_type'',
                               if typeof (field header ''recipient_type'') = TString
                               then field header ''recipient_type'' else JUndefined)]),
                         (''items'', JArr its)]))"

subsection \<open>\<^verbatim>\<open>validateReferencedPayout\<close>\<close>

text \<open>
  The callback of \<^verbatim>\<open>payout.referenced_payouts.map\<close>.  \<^verbatim>\<open>typeof null\<close> is
  \<^verbatim>\<open>'object'\<close>, so a \<^verbatim>\<open>processing_state\<close> of \<^verbatim>\<open>null\<close> reaches the read of its
  \<^verbatim>\<open>status\<close>, which throws.
\<close>

definition validateRefPayout :: "jsval \<Rightarrow> thrown + jsval" where
  "validateRefPayout refPayout =
     (if nullish refPayout then Inl (cannot_read refPayout ''reference_id'')
      else
        let amount = field refPayout ''payout_amount'';
            state = field refPayout ''processing_state'' in
        if typeof (field refPayout ''reference_id'') \<noteq> TString \<or>
           typeof (field refPayout ''reference_type'') \<noteq> TString \<or>
           \<not> truthy amount \<or> typeof amount \<noteq> TObject \<or>
           typeof (field refPayout ''payout_destination'') \<noteq> TString
        then invalid ''Invalid referenced payout''
        else if typeof (field amount ''currency_code'') \<noteq> TString \<or> typeof (field amount ''value'') \<noteq> TString
        then invalid ''Invalid amount fields''
        else if typeof state = TObject \<and> nullish state then Inl (cannot_read state ''status'')
        else Inr (JObj
          [(''item_id'',
              if typeof (field refPayout ''item_id'') = TString then field refPayout ''item_id'' else JStr []),
           (''processing_state'', JObj
              [(''status'',
                  if typeof state = TObject
                  then (if truthy (field state ''status'') then field state ''status'' else JStr [])
                  else JStr []),
               (''reason'',
                  if typeof state = TObject then field state ''reason'' else JUndefined)]),
           (''reference_id'', field refPayout ''reference_id''),
           (''reference_type'', field refPayout ''reference_type''),
           (''payout_amount'', JObj [(''currency_code'', field amount ''currency_code''),
                                     (''value'', field amount ''value'')]),
           (''payout_destination'', field refPayout ''payout_destination'')]))"

definition validateReferencedPayout :: "jsval \<Rightarrow> thrown + jsval" where
  "validateReferencedPayout args =
     (if typeof args \<noteq> TObject \<or> \<not> truthy args then invalid ''Invalid referenced payout data''
      else
        let refs = field args ''referenced_payouts'' in
        if \<not> isArray refs \<or> length (elems refs) = 0 then invalid ''Missing referenced payouts''
        else
          case map_throw validateRefPayout (elems refs) of
            Inl e \<Rightarrow> Inl e
          | Inr rs \<Rightarrow> Inr (JObj [(''referenced_payouts'', JArr rs)]))"

subsection \<open>\<^verbatim>\<open>validatePayPalOrder\<close>\<close>

text \<open>The callback of \<^verbatim>\<open>order.purchase_units.map\<close>.\<close>

definition validatePurchaseUnit :: "jsval \<Rightarrow> thrown + jsval" where
  "validatePurchaseUnit unitObj =
     (if nullish unitObj then Inl (cannot_read unitObj ''amount'')
      else
        let amount = field unitObj ''amount'' in
        if \<not> truthy amount \<or> typeof amount \<noteq> TObject then invalid ''Invalid purchase unit amount''
        else if typeof (field amount ''currency_code'') \<noteq> TString \<or> typeof (field amount ''value'') \<noteq> TString
        then invalid ''Invalid amount fields''
        else Inr (JObj ([(''amount'', JObj [(''currency_code'', field amount ''currency_code''),
                                            (''value'', field amount ''value'')])]
                        @ copy_string unitObj ''description''
                        @ copy_string unitObj ''reference_id'')))"

definition validatePayPalOrder :: "jsval \<Rightarrow> thrown + jsval" where
  "validatePayPalOrder args =
     (if typeof args \<noteq> TObject \<or> \<not> truthy args then invalid ''Invalid order data''
      else
        let units = field args ''purchase_units'' in
        if field args ''intent'' \<notin> set [JStr ''CAPTURE'', JStr ''AUTHORIZE''] \<or>
           \<not> isArray units \<or> length (elems units) = 0
        then invalid ''Missing required order fields''
        else
          case map_throw validatePurchaseUnit (elems units) of
            Inl e \<Rightarrow> Inl e
          | Inr us \<Rightarrow> Inr (JObj [(''intent'', field args ''intent''), (''purchase_units'', JArr us)]))"

subsection \<open>\<^verbatim>\<open>validatePartnerReferral\<close>\<close>

text \<open>The callbacks of \<^verbatim>\<open>ownerObj.names.map\<close> and \<^verbatim>\<open>referral.individual_owners.map\<close>.\<close>

definition validateOwnerName :: "jsval \<Rightarrow> thrown + jsval" where
  "validateOwnerName nameObj =
     (if nullish nameObj then Inl (cannot_read nameObj ''given_name'')
      else if typeof (field nameObj ''given_name'') \<noteq> TString \<or>
              typeof (field nameObj ''surname'') \<noteq> TString
      then invalid ''Invalid name fields''
      else Inr (JObj [(''given_name'', field nameObj ''given_name''),
                      (''surname'', field nameObj ''surname'')]))"

definition validateOwner :: "jsval \<Rightarrow> thrown + jsval" where
  "validateOwner ownerObj =
     (if nullish ownerObj then Inl (cannot_read ownerObj ''names'')
      else
        let names = field ownerObj ''names'' in
        if \<not> isArray names \<or> length (elems names) = 0 then invalid ''Invalid owner names''
        else
          case map_throw validateOwnerName (elems names) of
            Inl e \<Rightarrow> Inl e
          | Inr ns \<Rightarrow> Inr (JObj [(''names'', JArr ns)]))"

text \<open>
  \<^verbatim>\<open>business_entity\<close> and \<^verbatim>\<open>business_type\<close> are only tested for truthiness, so they may
  be primitives; a property read on a primitive yields \<^verbatim>\<open>undefined\<close>.
\<close>

definition validatePartnerReferral :: "jsval \<Rightarrow> thrown + jsval" where
  "validatePartnerReferral args =
     (if typeof args \<noteq> TObject \<or> \<not> truthy args then invalid ''Invalid partner referral data''
      else
        let owners = field args ''individual_owners''; business = field args ''business_entity'' in
        if \<not> isArray owners \<or> \<not> truthy business \<or> typeof (field args ''email'') \<noteq> TString
        then invalid ''Missing required referral fields''
        else
          case map_throw validateOwner (elems owners) of
            Inl e \<Rightarrow> Inl e
          | Inr os \<Rightarrow>
              let business_type = field business ''business_type'' in
              if \<not> truthy business_type \<or> typeof (field business ''business_name'') \<noteq> TString
              then invalid ''Invalid business entity''
              else if typeof (field business_type ''type'') \<noteq> TString then invalid ''Invalid business type''
              else Inr (JObj
                [(''individual_owners'', JArr os),
                 (''business_entity'', JObj
                    [(''business_type'', JObj [(''type'', field business_type ''type'')]),
                     (''business_name'', field business ''business_name'')]),
                 (''email'', field args ''email'')]))"

subsection \<open>\<^verbatim>\<open>validateWebProfile\<close>\<close>

definition validateWebProfile :: "jsval \<Rightarrow> thrown + jsval" where
  "validateWebProfile args =
     (if typeof args \<noteq> TObject \<or> \<not> truthy args then invalid ''Invalid web profile data''
      else if typeof (field args ''name'') \<noteq> TString then invalid ''Missing required profile name''
      else
        let pres = field args ''presentation'';
            fields = field args ''input_fields'';
            flow = field args ''flow_config'' in
        Inr (JObj
          [(''name'', field args ''name''),
           (''presentation'', JObj (
              if truthy pres \<and> typeof pres = TObject
              then copy_string pres ''brand_name'' @ copy_string pres ''logo_image''
                   @ copy_string pres ''locale_code''
              else [])),
           (''input_fields'', JObj (
              if truthy fields \<and> typeof fields = TObject
              then copy_number fields ''no_shipping'' @ copy_number fields ''address_override''
              else [])),
           (''flow_config'', JObj (
              if truthy flow \<and> typeof flow = TObject
              then copy_string flow ''landing_page_type'' @ copy_string flow ''bank_txn_pending_url''
              else []))]))"

subsection \<open>\<^verbatim>\<open>validatePayPalProduct\<close>\<close>

definition validatePayPalProduct :: "jsval \<Rightarrow> thrown + jsval" where
  "validatePayPalProduct args =
     (if typeof args \<noteq> TObject \<or> \<not> truthy args then invalid ''Invalid product data''
      else if typeof (field args ''name'') \<noteq> TString \<or>
              typeof (field args ''description'') \<noteq> TString \<or>
              field args ''type'' \<notin> set [JStr ''PHYSICAL'', JStr ''DIGITAL'', JStr ''SERVICE''] \<or>
              typeof (field args ''category'') \<noteq> TString
      then invalid ''Missing required product fields''
      else Inr (JObj ([(''name'', field args ''name''),
                       (''description'', field args ''description''),
                       (''type'', field args ''type''),
                       (''category'', field args ''category'')]
                      @ copy_string args ''image_url''
                      @ copy_string args ''home_url'')))"

subsection \<open>\<^verbatim>\<open>validatePaginationParams\<close>, \<^verbatim>\<open>validateDisputeParams\<close>, \<^verbatim>\<open>validateTokenParams\<close>\<close>

definition validatePaginationParams :: "jsval \<Rightarrow> thrown + jsval" where
  "validatePaginationParams args =
     (if typeof args \<noteq> TObject \<or> \<not> truthy args then Inr (JObj [])
      else
        let page_size = field args ''page_size''; page = field args ''page'' in
        Inr (JObj (
          (if typeof page_size = TNumber \<and> num_of page_size \<ge> 1 \<and> num_of page_size \<le> 100
           then [(''page_size'', page_size)] else [])
          @ (if typeof page = TNumber \<and> num_of page \<ge> 1
             then [(''page'', page)] else []))))"

definition validateDisputeParams :: "jsval \<Rightarrow> thrown + jsval" where
  "validateDisputeParams args =
     (if typeof args \<noteq> TObject \<or> \<not> truthy args \<or> typeof (field args ''dispute_id'') \<noteq> TString
      then invalid ''Invalid dispute ID''
      else Inr (JObj [(''dispute_id'', field args ''dispute_id'')]))"

definition validateTokenParams :: "jsval \<Rightarrow> thrown + jsval" where
  "validateTokenParams args =
     (if typeof args \<noteq> TObject \<or> \<not> truthy args \<or> typeof (field args ''access_token'') \<noteq> TString
      then invalid ''Invalid access token''
      else Inr (JObj [(''access_token'', field args ''access_token'')]))"

subsection \<open>\<^verbatim>\<open>validatePayPalInvoice\<close>\<close>

text \<open>The callback of \<^verbatim>\<open>items.map\<close>.\<close>

definition validateInvoiceItem :: "jsval \<Rightarrow> thrown + jsval" where
  "validateInvoiceItem item =
     (if nullish item then Inl (cannot_read item ''name'')
      else
        let amount = field item ''unit_amount'' in
        if typeof (field item ''name'') \<noteq> TString \<or>
           typeof (field item ''quantity'') \<noteq> TString \<or>
           \<not> truthy amount \<or> typeof amount \<noteq> TObject
        then invalid ''Invalid invoice item''
        else if typeof (field amount ''currency_code'') \<noteq> TString \<or> typeof (field amount ''value'') \<noteq> TString
        then invalid ''Invalid item amount''
        else Inr (JObj [(''name'', field item ''name''),
                        (''quantity'', field item ''quantity''),
                        (''unit_amount'', JObj [(''currency_code'', field amount ''currency_code''),
                                                (''value'', field amount ''value'')])]))"

text \<open>
  Only \<^verbatim>\<open>invoice.primary_recipients[0]\<close> is read; the array is known to be non-empty
  where it is.
\<close>

definition validatePayPalInvoice :: "jsval \<Rightarrow> thrown + jsval" where
  "validatePayPalInvoice args =
     (if typeof args \<noteq> TObject \<or> \<not> truthy args then invalid ''Invalid invoice data''
      else
        let detail = field args ''detail'';
            recipients = field args ''primary_recipients'';
            items = field args ''items'' in
        if \<not> truthy detail \<or> typeof detail \<noteq> TObject \<or>
           \<not> isArray recipients \<or> length (elems recipients) = 0 \<or>
           \<not> isArray items \<or> length (elems items) = 0
        then invalid ''Missing required invoice fields''
        else if typeof (field detail ''invoice_number'') \<noteq> TString \<or>
                typeof (field detail ''reference'') \<noteq> TString \<or>
                typeof (field detail ''currency_code'') \<noteq> TString
        then invalid ''Invalid invoice detail fields''
        else
          let recipient = hd (elems recipients) in
          if nullish recipient then Inl (cannot_read recipient ''billing_info'')
          else
            let billing_info = field recipient ''billing_info'' in
            if \<not> truthy billing_info \<or> typeof billing_info \<noteq> TObject \<or>
               typeof (field billing_info ''email_address'') \<noteq> TString
            then invalid ''Invalid recipient information''
            else
              case map_throw validateInvoiceItem (elems items) of
                Inl e \<Rightarrow> Inl e
              | Inr its \<Rightarrow>
                  Inr (JObj
                    [(''detail'', JObj [(''invoice_number'', field detail ''invoice_number''),
                                        (''reference'', field detail ''reference''),
                                        (''currency_code'', field detail ''currency_code'')]),
                     (''primary_recipients'', JArr [JObj [(''billing_info'', JObj
                         [(''email_address'', field billing_info ''email_address'')])]]),
                     (''items'', JArr its)]))"

section \<open>The server: credential cache, upstream calls and dispatch\<close>

text \<open>
  The remote API is a black box.  Every HTTP request the server sends is recorded in
  \<open>sent\<close>, in order, and the upstream's answer to a request may depend on all requests
  before it.  A failed call makes the HTTP client throw its own error.
\<close>

datatype http_method = GET | POST

datatype auth =
    BasicClient   \<comment> \<open>\<^verbatim>\<open>Basic base64(PAYPAL_CLIENT_ID:PAYPAL_CLIENT_SECRET)\<close>\<close>
  | Bearer jsval  \<comment> \<open>\<^verbatim>\<open>Bearer ${token}\<close>\<close>

record request =
  req_method :: http_method
  req_url :: string
  req_query :: "(string \<times> string) list"
  req_auth :: auth
  req_body :: jsval

datatype reply = HttpOk jsval | HttpFail "string option" string

type_synonym upstream = "request list \<Rightarrow> request \<Rightarrow> reply"

record server =
  accessToken :: jsval
  sent :: "request list"

text \<open>The state of a fresh process: \<^verbatim>\<open>accessToken: string | null = null\<close>, nothing sent.\<close>

definition initial :: server where
  "initial = \<lparr>accessToken = JNull, sent = []\<rparr>"

text \<open>
  A response envelope: the upstream body (the source renders it with
  \<^verbatim>\<open>JSON.stringify(data, null, 2)\<close>), or an error text with \<^verbatim>\<open>isError: true\<close>.
\<close>

datatype envelope = Content jsval | ErrorContent string

definition api :: string where
  "api = ''https://api-m.sandbox.paypal.com''"

definition token_request :: request where
  "token_request =
     \<lparr>req_method = POST, req_url = api @ ''/v1/oauth2/token'', req_query = [],
      req_auth = BasicClient, req_body = JStr ''grant_type=client_credentials''\<rparr>"

definition getAccessToken :: "upstream \<Rightarrow> server \<Rightarrow> (thrown + jsval) \<times> server" where
  "getAccessToken up s =
     (if truthy (accessToken s) then (Inr (accessToken s), s)
      else
        let s1 = s\<lparr>sent := sent s @ [token_request]\<rparr> in
        case up (sent s) token_request of
          HttpFail r m \<Rightarrow> (Inl (AxiosError r m), s1)
        | HttpOk data \<Rightarrow>
            if nullish data then (Inl (cannot_read data ''access_token''), s1)
            else
              let s2 = s1\<lparr>accessToken := field data ''access_token''\<rparr> in
              if \<not> truthy (accessToken s2)
              then (Inl (JsError ''Failed to obtain access token''), s2)
              else (Inr (accessToken s2), s2))"

text \<open>One \<^verbatim>\<open>await axios.post(...)\<close> or \<^verbatim>\<open>axios.get(...)\<close> and the success envelope.\<close>

definition call_api :: "upstream \<Rightarrow> request \<Rightarrow> server \<Rightarrow> (thrown + envelope) \<times> server" where
  "call_api up req s =
     (let s1 = s\<lparr>sent := sent s @ [req]\<rparr> in
      case up (sent s) req of
        HttpFail r m \<Rightarrow> (Inl (AxiosError r m), s1)
      | HttpOk data \<Rightarrow> (Inr (Content data), s1))"

text \<open>The shape shared by the \<^verbatim>\<open>create_*\<close> branches: validate, then POST the result.\<close>

definition post_tool ::
  "upstream \<Rightarrow> jsval \<Rightarrow> (jsval \<Rightarrow> thrown + jsval) \<Rightarrow> string \<Rightarrow> jsval \<Rightarrow> server
     \<Rightarrow> (thrown + envelope) \<times> server" where
  "post_tool up token validate path args s =
     (case validate args of
        Inl e \<Rightarrow> (Inl e, s)
      | Inr body \<Rightarrow>
          call_api up \<lparr>req_method = POST, req_url = api @ path, req_query = [],
                       req_auth = Bearer token, req_body = body\<rparr> s)"

fun str_of :: "jsval \<Rightarrow> string" where
  "str_of (JStr s) = s"
| "str_of v = []"

text \<open>
  \<^verbatim>\<open>v?.toString() || dflt\<close> for a validated pagination value; \<open>num_str\<close> is the
  language's \<^verbatim>\<open>Number.prototype.toString\<close>.
\<close>

definition query_value :: "(rat \<Rightarrow> string) \<Rightarrow> jsval \<Rightarrow> string \<Rightarrow> string" where
  "query_value num_str v dflt =
     (if nullish v then dflt
      else if num_str (num_of v) = [] then dflt else num_str (num_of v))"

text \<open>The body the \<^verbatim>\<open>create_invoice\<close> branch rebuilds from the validated invoice.\<close>

definition invoiceData :: "jsval \<Rightarrow> jsval" where
  "invoiceData args =
     (let detail = field args ''detail'';
          recipient = hd (elems (field args ''primary_recipients'')) in
      JObj [(''detail'', JObj [(''invoice_number'', field detail ''invoice_number''),
                               (''reference'', field detail ''reference''),
                               (''currency_code'', field detail ''currency_code'')]),
            (''primary_recipients'', JArr [JObj [(''billing_info'', JObj
                [(''email_address'', field (field recipient ''billing_info'') ''email_address'')])]]),
            (''items'', field args ''items'')])"

text \<open>The \<^verbatim>\<open>switch (request.params.name)\<close>, with the credential already acquired.\<close>

definition dispatch ::
  "(rat \<Rightarrow> string) \<Rightarrow> upstream \<Rightarrow> jsval \<Rightarrow> string \<Rightarrow> jsval \<Rightarrow> server
     \<Rightarrow> (thrown + envelope) \<times> server" where
  "dispatch num_str up token name args s =
     (if name = ''create_payment_token'' then
        post_tool up token validatePaymentToken ''/v3/payment-tokens'' args s
      else if name = ''create_payment'' then
        post_tool up token validatePayment ''/v2/payments/payment'' args s
      else if name = ''create_payout'' then
        post_tool up token validatePayout ''/v1/payments/payouts'' args s
      else if name = ''create_referenced_payout'' then
        post_tool up token validateReferencedPayout ''/v1/payments/referenced-payouts'' args s
      else if name = ''create_order'' then
        post_tool up token validatePayPalOrder ''/v2/checkout/orders'' args s
      else if name = ''create_partner_referral'' then
        post_tool up token validatePartnerReferral ''/v2/customer/partner-referrals'' args s
      else if name = ''create_web_profile'' then
        post_tool up token validateWebProfile ''/v1/payment-experience/web-profiles'' args s
      else if name = ''create_product'' then
        post_tool up token validatePayPalProduct ''/v1/catalogs/products'' args s
      else if name = ''list_products'' then
        (case validatePaginationParams args of
           Inl e \<Rightarrow> (Inl e, s)
         | Inr v \<Rightarrow>
             call_api up
               \<lparr>req_method = GET, req_url = api @ ''/v1/catalogs/products'',
                req_query = [(''page_size'', query_value num_str (field v ''page_size'') ''10''),
                             (''page'', query_value num_str (field v ''page'') ''1'')],
                req_auth = Bearer token, req_body = JUndefined\<rparr> s)
      else if name = ''get_dispute'' then
        (case validateDisputeParams args of
           Inl e \<Rightarrow> (Inl e, s)
         | Inr v \<Rightarrow>
             call_api up
               \<lparr>req_method = GET,
                req_url = api @ ''/v1/customer/disputes/'' @ str_of (field v ''dispute_id''),
                req_query = [], req_auth = Bearer token, req_body = JUndefined\<rparr> s)
      else if name = ''get_userinfo'' then
        (case validateTokenParams args of
           Inl e \<Rightarrow> (Inl e, s)
         | Inr v \<Rightarrow>
             call_api up
               \<lparr>req_method = GET, req_url = api @ ''/v1/identity/oauth2/userinfo'',
                req_query = [], req_auth = Bearer (field v ''access_token''),
                req_body = JUndefined\<rparr> s)
      else if name = ''create_invoice'' then
        (case validatePayPalInvoice args of
           Inl e \<Rightarrow> (Inl e, s)
         | Inr v \<Rightarrow>
             call_api up
               \<lparr>req_method = POST, req_url = api @ ''/v2/invoicing/invoices'', req_query = [],
                req_auth = Bearer token, req_body = invoiceData v\<rparr> s)
      else (Inl (McpError MethodNotFound (''Unknown tool: '' @ name)), s))"

text \<open>
  The \<^verbatim>\<open>catch\<close> block around the switch: an HTTP client error becomes an error
  envelope, every other thrown value becomes a fresh \<^verbatim>\<open>McpError(InternalError, ...)\<close>.
\<close>

definition on_catch :: "thrown \<Rightarrow> thrown + envelope" where
  "on_catch e =
     (if isAxiosError e then
        Inr (ErrorContent (''PayPal API error: '' @
          (case e of
             AxiosError (Some t) m \<Rightarrow> (if t \<noteq> [] then t else m)
           | _ \<Rightarrow> message e)))
      else Inl (McpError InternalError
             (if message e \<noteq> [] then message e else ''An unexpected error occurred'')))"

text \<open>The handler of \<^verbatim>\<open>CallToolRequestSchema\<close>.\<close>

definition callTool ::
  "(rat \<Rightarrow> string) \<Rightarrow> upstream \<Rightarrow> string \<Rightarrow> jsval \<Rightarrow> server \<Rightarrow> (thrown + envelope) \<times> server" where
  "callTool num_str up name arguments s =
     (if \<not> truthy arguments then (Inl (McpError InvalidParams ''Arguments are required''), s)
      else
        case getAccessToken up s of
          (Inl e, s1) \<Rightarrow> (Inl e, s1)
        | (Inr token, s1) \<Rightarrow>
            (case dispatch num_str up token name arguments s1 of
               (Inl e, s2) \<Rightarrow> (on_catch e, s2)
             | (Inr env, s2) \<Rightarrow> (Inr env, s2)))"

text \<open>The tool names the \<^verbatim>\<open>ListToolsRequestSchema\<close> handler advertises.\<close>

definition tool_names :: "string list" where
  "tool_names =
     [''create_payment_token'', ''create_payment'', ''create_payout'',
      ''create_referenced_payout'', ''create_order'', ''create_partner_referral'',
      ''create_web_profile'', ''create_product'', ''list_products'', ''get_dispute'',
      ''get_userinfo'', ''create_invoice'']"

section \<open>Example inputs\<close>

definition usd_unit :: jsval where
  "usd_unit = JObj [(''amount'', JObj [(''currency_code'', JStr ''USD''), (''value'', JStr ''10.00'')])]"

definition order_with_intent :: "string \<Rightarrow> jsval" where
  "order_with_intent i = JObj [(''intent'', JStr i), (''purchase_units'', JArr [usd_unit])]"

definition product_with_type :: "string \<Rightarrow> jsval" where
  "product_with_type t =
     JObj [(''name'', JStr ''Mug''), (''description'', JStr ''A mug''), (''type'', JStr t),
           (''category'', JStr ''HOME'')]"

text \<open>The number of token fetches among the requests sent so far.\<close>

definition token_fetches :: "server \<Rightarrow> nat" where
  "token_fetches s = length (filter (\<lambda>r. r = token_request) (sent s))"

section \<open>Example upstreams and server states\<close>

text \<open>An upstream that answers every request with a token body.\<close>

definition upstream_ok :: upstream where
  "upstream_ok h r = HttpOk (JObj [(''access_token'', JStr ''A21AA'')])"

text \<open>An upstream whose first answer is a network failure.\<close>

definition upstream_flaky :: upstream where
  "upstream_flaky h r =
     (if h = [] then HttpFail None ''Network Error''
      else HttpOk (JObj [(''access_token'', JStr ''A21AA'')]))"

definition any_num_str :: "rat \<Rightarrow> string" where
  "any_num_str n = ''1''"

text \<open>A process that holds a credential, and one that has just fetched it.\<close>

definition cached :: server where
  "cached = \<lparr>accessToken = JStr ''A21AA'', sent = []\<rparr>"

definition fetched :: server where
  "fetched = \<lparr>accessToken = JStr ''A21AA'', sent = [token_request]\<rparr>"

section \<open>Adding a property to an input; the fields each validator reads\<close>

text \<open>\<^verbatim>\<open>obj[k] = v\<close>: the property is overwritten in place or appended.\<close>

fun put_field :: "string \<Rightarrow> jsval \<Rightarrow> (string \<times> jsval) list \<Rightarrow> (string \<times> jsval) list" where
  "put_field k v [] = [(k, v)]"
| "put_field k v (p # fs) = (if fst p = k then (k, v) # fs else p # put_field k v fs)"

fun set_field :: "jsval \<Rightarrow> string \<Rightarrow> jsval \<Rightarrow> jsval" where
  "set_field (JObj fs) k v = JObj (put_field k v fs)"
| "set_field a k v = a"

text \<open>Every validator of the source, with the top-level properties of its input it reads.\<close>

definition validators :: "((jsval \<Rightarrow> thrown + jsval) \<times> string list) list" where
  "validators =
     [(validatePaymentToken, [''customer'', ''payment_source'']),
      (validatePayment, [''intent'', ''payer'', ''transactions'']),
      (validatePayout, [''sender_batch_header'', ''items'']),
      (validateReferencedPayout, [''referenced_payouts'']),
      (validatePayPalOrder, [''intent'', ''purchase_units'']),
      (validatePartnerReferral, [''individual_owners'', ''business_entity'', ''email'']),
      (validateWebProfile, [''name'', ''presentation'', ''input_fields'', ''flow_config'']),
      (validatePayPalProduct,
         [''name'', ''description'', ''type'', ''category'', ''image_url'', ''home_url'']),
      (validatePaginationParams, [''page_size'', ''page'']),
      (validateDisputeParams, [''dispute_id'']),
      (validateTokenParams, [''access_token'']),
      (validatePayPalInvoice, [''detail'', ''primary_recipients'', ''items''])]"

definition smuggled_order :: jsval where
  "smuggled_order =
     set_field (order_with_intent ''CAPTURE'') ''payer'' (JObj [(''payer_id'', JStr ''X'')])"

text \<open>A payment whose optional \<^verbatim>\<open>payer.funding_instruments\<close> holds \<open>fi\<close>.\<close>

definition payment_with_funding :: "jsval \<Rightarrow> jsval" where
  "payment_with_funding fi =
     JObj [(''intent'', JStr ''sale''),
           (''payer'', JObj [(''payment_method'', JStr ''credit_card''),
                             (''funding_instruments'', fi)]),
           (''transactions'', JArr [JObj [(''amount'',
               JObj [(''total'', JStr ''1.00''), (''currency'', JStr ''USD'')])]])]"

text \<open>A referenced payout whose optional \<^verbatim>\<open>processing_state\<close> holds \<open>st\<close>.\<close>

definition ref_payout_with_state :: "jsval \<Rightarrow> jsval" where
  "ref_payout_with_state st =
     JObj [(''reference_id'', JStr ''R1''), (''reference_type'', JStr ''TRANSACTION_ID''),
           (''payout_amount'', JObj [(''currency_code'', JStr ''USD''), (''value'', JStr ''1.00'')]),
           (''payout_destination'', JStr ''D1''),
           (''processing_state'', st)]"

section \<open>Nested arrays\<close>




definition recipient :: "string \<Rightarrow> jsval" where
  "recipient email = JObj [(''billing_info'', JObj [(''email_address'', JStr email)])]"


section \<open>Fields absent from an input\<close>

text \<open>Each of the properties \<open>ks\<close> that \<open>src\<close> lacks, \<open>out\<close> lacks too.\<close>

definition keeps_absent :: "jsval \<Rightarrow> jsval \<Rightarrow> string list \<Rightarrow> bool" where
  "keeps_absent src out ks \<longleftrightarrow> (\<forall>k\<in>set ks. field src k = JUndefined \<longrightarrow> field out k = JUndefined)"

text \<open>A referenced payout with the four required fields only.\<close>

definition bare_ref_payout :: jsval where
  "bare_ref_payout =
     JObj [(''reference_id'', JStr ''R1''), (''reference_type'', JStr ''TRANSACTION_ID''),
           (''payout_amount'', JObj [(''currency_code'', JStr ''USD''), (''value'', JStr ''1.00'')]),
           (''payout_destination'', JStr ''D1'')]"

section \<open>Basic facts about the server model\<close>

lemma sent_call_api: "sent (snd (call_api up r s)) = sent s @ [r]"
  by (simp add: call_api_def Let_def split: reply.splits)

lemma query_value_absent: "query_value num_str JUndefined d = d"
  by (simp add: query_value_def)

lemma dispatch_list_products:
  "dispatch num_str up token ''list_products'' args s =
     (case validatePaginationParams args of
        Inl e \<Rightarrow> (Inl e, s)
      | Inr v \<Rightarrow>
          call_api up
            \<lparr>req_method = GET, req_url = api @ ''/v1/catalogs/products'',
             req_query = [(''page_size'', query_value num_str (field v ''page_size'') ''10''),
                          (''page'', query_value num_str (field v ''page'') ''1'')],
             req_auth = Bearer token, req_body = JUndefined\<rparr> s)"
  by (simp add: dispatch_def)

section \<open>Pagination\<close>

lemma pagination_total: "\<exists>v. validatePaginationParams args = Inr v"
  by (simp add: validatePaginationParams_def Let_def)

lemma pagination_non_object:
  "typeof args \<noteq> TObject \<or> \<not> truthy args \<Longrightarrow> validatePaginationParams args = Inr (JObj [])"
  by (auto simp add: validatePaginationParams_def Let_def)

lemma pagination_keys:
  "validatePaginationParams args = Inr v \<Longrightarrow> own_keys v \<subseteq> {''page_size'', ''page''}"
  by (auto simp add: validatePaginationParams_def Let_def split: if_splits)

lemma pagination_page_size_dropped:
  "validatePaginationParams args = Inr v \<Longrightarrow>
   typeof (field args ''page_size'') \<noteq> TNumber \<or> num_of (field args ''page_size'') < 1 \<or>
     num_of (field args ''page_size'') > 100 \<Longrightarrow>
   field v ''page_size'' = JUndefined"
  by (auto simp add: validatePaginationParams_def Let_def split: if_splits)

lemma pagination_page_dropped:
  "validatePaginationParams args = Inr v \<Longrightarrow>
   typeof (field args ''page'') \<noteq> TNumber \<or> num_of (field args ''page'') < 1 \<Longrightarrow>
   field v ''page'' = JUndefined"
  by (auto simp add: validatePaginationParams_def Let_def split: if_splits)

lemma pagination_empty:
  "validatePaginationParams args = Inr v \<Longrightarrow>
   field v ''page_size'' = JUndefined \<Longrightarrow> field v ''page'' = JUndefined \<Longrightarrow> v = JObj []"
  by (auto simp add: validatePaginationParams_def Let_def split: if_splits)

lemma pagination_downstream:
  assumes "validatePaginationParams args = Inr v"
  shows "\<exists>r. sent (snd (dispatch num_str up token ''list_products'' args s)) = sent s @ [r]
           \<and> req_method r = GET \<and> req_url r = api @ ''/v1/catalogs/products''
           \<and> (field v ''page_size'' = JUndefined \<longrightarrow> map_of (req_query r) ''page_size'' = Some ''10'')
           \<and> (field v ''page'' = JUndefined \<longrightarrow> map_of (req_query r) ''page'' = Some ''1'')"
  using assms by (simp add: dispatch_list_products sent_call_api query_value_absent)

lemma pagination_500: "validatePaginationParams (JObj [(''page_size'', JNum 500)]) = Inr (JObj [])"
  by (simp add: validatePaginationParams_def Let_def)

text \<open>
  Claim C6.  The pagination validator never throws.  On an absent or non-object input it
  returns the empty object, and so it does on an object that holds no usable value.  A
  \<^verbatim>\<open>page_size\<close> that is no number in \<open>[1, 100]\<close> is left out of the result (the result
  holds nothing under that key, so the value is not clamped), and so is a \<^verbatim>\<open>page\<close>
  that is no number from 1 up.  The \<^verbatim>\<open>list_products\<close> branch then sends one GET to the
  product catalogue whose query has \<^verbatim>\<open>page_size=10\<close> when the validated result lacks
  \<^verbatim>\<open>page_size\<close> and \<^verbatim>\<open>page=1\<close> when it lacks \<^verbatim>\<open>page\<close>.
\<close>

theorem pagination_soft_and_defaults:
  "(\<exists>v. validatePaginationParams args = Inr v)
   \<and> (typeof args \<noteq> TObject \<or> \<not> truthy args \<longrightarrow> validatePaginationParams args = Inr (JObj []))
   \<and> (\<forall>v. validatePaginationParams args = Inr v \<longrightarrow>
         own_keys v \<subseteq> {''page_size'', ''page''}
       \<and> (typeof (field args ''page_size'') \<noteq> TNumber \<or> num_of (field args ''page_size'') < 1 \<or>
            num_of (field args ''page_size'') > 100 \<longrightarrow> field v ''page_size'' = JUndefined)
       \<and> (typeof (field args ''page'') \<noteq> TNumber \<or> num_of (field args ''page'') < 1
            \<longrightarrow> field v ''page'' = JUndefined)
       \<and> (field v ''page_size'' = JUndefined \<and> field v ''page'' = JUndefined \<longrightarrow> v = JObj [])
       \<and> (\<exists>r. sent (snd (dispatch num_str up token ''list_products'' args s)) = sent s @ [r]
              \<and> req_method r = GET \<and> req_url r = api @ ''/v1/catalogs/products''
              \<and> (field v ''page_size'' = JUndefined \<longrightarrow> map_of (req_query r) ''page_size'' = Some ''10'')
              \<and> (field v ''page'' = JUndefined \<longrightarrow> map_of (req_query r) ''page'' = Some ''1'')))"
  using pagination_total [of args] pagination_non_object [of args] pagination_keys [of args]
    pagination_page_size_dropped [of args] pagination_page_dropped [of args]
    pagination_empty [of args] pagination_downstream [of args _ num_str up token s]
  by blast

theorem pagination_soft_and_defaults_witness:
  "validatePaginationParams (JObj [(''page_size'', JNum 500)]) = Inr (JObj [])
   \<and> (\<exists>r. sent (snd (dispatch (\<lambda>n. ''7'') (\<lambda>h r. HttpOk JNull) (JStr ''T'') ''list_products''
                 (JObj [(''page_size'', JNum 500)]) initial)) = [r]
          \<and> map_of (req_query r) ''page_size'' = Some ''10'' \<and> map_of (req_query r) ''page'' = Some ''1'')"
  using pagination_soft_and_defaults [of "JObj [(''page_size'', JNum 500)]" "\<lambda>n. ''7''"
      "\<lambda>h r. HttpOk JNull" "JStr ''T''" initial]
  by (simp add: pagination_500 initial_def) blast

section \<open>Arrays mapped with a throwing callback\<close>



lemma map_throw_fails:
  "x \<in> set xs \<Longrightarrow> f x = Inl e \<Longrightarrow> \<exists>e'. map_throw f xs = Inl e'"
  by (induction xs) (auto split: sum.splits)

lemma map_throw_failure_origin:
  "map_throw f xs = Inl e \<Longrightarrow> \<exists>x\<in>set xs. f x = Inl e"
  by (induction xs) (auto split: sum.splits)

lemma map_throw_succeeds:
  "(\<forall>x\<in>set xs. \<exists>y. f x = Inr y) \<Longrightarrow> \<exists>ys. map_throw f xs = Inr ys"
  by (induction xs) (auto split: sum.splits)

section \<open>Enum-constrained fields\<close>

lemma order_bad_intent:
  "field args ''intent'' \<notin> {JStr ''CAPTURE'', JStr ''AUTHORIZE''} \<Longrightarrow>
   \<exists>m. validatePayPalOrder args = Inl (McpError InvalidParams m)"
  by (simp add: validatePayPalOrder_def invalid_def Let_def)

lemma order_intent_unchanged:
  "validatePayPalOrder args = Inr out \<Longrightarrow>
   field out ''intent'' = field args ''intent'' \<and>
   field args ''intent'' \<in> {JStr ''CAPTURE'', JStr ''AUTHORIZE''}"
  by (auto simp add: validatePayPalOrder_def invalid_def Let_def split: if_splits sum.splits)

lemma order_good_intent:
  assumes "typeof args = TObject" "truthy args"
    and "field args ''intent'' \<in> {JStr ''CAPTURE'', JStr ''AUTHORIZE''}"
    and "isArray (field args ''purchase_units'')" "elems (field args ''purchase_units'') \<noteq> []"
    and "\<forall>u\<in>set (elems (field args ''purchase_units'')). \<exists>y. validatePurchaseUnit u = Inr y"
  shows "\<exists>out. validatePayPalOrder args = Inr out \<and> field out ''intent'' = field args ''intent''"
proof -
  from map_throw_succeeds [OF assms(6)] obtain us
    where "map_throw validatePurchaseUnit (elems (field args ''purchase_units'')) = Inr us" ..
  with assms(1-5) show ?thesis
    by (simp add: validatePayPalOrder_def Let_def)
qed

lemma product_bad_type:
  "field args ''type'' \<notin> {JStr ''PHYSICAL'', JStr ''DIGITAL'', JStr ''SERVICE''} \<Longrightarrow>
   \<exists>m. validatePayPalProduct args = Inl (McpError InvalidParams m)"
  by (simp add: validatePayPalProduct_def invalid_def Let_def)

lemma product_type_unchanged:
  "validatePayPalProduct args = Inr out \<Longrightarrow>
   field out ''type'' = field args ''type'' \<and>
   field args ''type'' \<in> {JStr ''PHYSICAL'', JStr ''DIGITAL'', JStr ''SERVICE''}"
  by (auto simp add: validatePayPalProduct_def invalid_def Let_def split: if_splits)

lemma product_good_type:
  assumes "typeof args = TObject" "truthy args"
    and "field args ''type'' \<in> {JStr ''PHYSICAL'', JStr ''DIGITAL'', JStr ''SERVICE''}"
    and "typeof (field args ''name'') = TString" "typeof (field args ''description'') = TString"
    and "typeof (field args ''category'') = TString"
  shows "\<exists>out. validatePayPalProduct args = Inr out \<and> field out ''type'' = field args ''type''"
  using assms by (simp add: validatePayPalProduct_def Let_def)

lemma usd_unit_valid:
  "validatePurchaseUnit usd_unit =
     Inr (JObj [(''amount'', JObj [(''currency_code'', JStr ''USD''), (''value'', JStr ''10.00'')])])"
  by (simp add: validatePurchaseUnit_def usd_unit_def copy_string_def Let_def)

lemma order_capture_valid:
  "validatePayPalOrder (order_with_intent ''CAPTURE'') =
     Inr (JObj [(''intent'', JStr ''CAPTURE''),
                (''purchase_units'', JArr [JObj [(''amount'',
                    JObj [(''currency_code'', JStr ''USD''), (''value'', JStr ''10.00'')])]])])"
  by (simp add: validatePayPalOrder_def order_with_intent_def usd_unit_valid Let_def)

lemma order_refund_invalid:
  "validatePayPalOrder (order_with_intent ''REFUND'') =
     Inl (McpError InvalidParams ''Missing required order fields'')"
  by (simp add: validatePayPalOrder_def order_with_intent_def invalid_def Let_def)

text \<open>
  Claim C7.  \<^verbatim>\<open>create_order\<close>: an \<^verbatim>\<open>intent\<close> other than the strings \<^verbatim>\<open>CAPTURE\<close> and
  \<^verbatim>\<open>AUTHORIZE\<close> makes \<^verbatim>\<open>validatePayPalOrder\<close> throw \<^verbatim>\<open>InvalidParams\<close>, whatever else
  the input holds; a successful validation returns the input's \<^verbatim>\<open>intent\<close> unchanged; and
  an \<^verbatim>\<open>intent\<close> in the set is accepted whenever the purchase units are.
  \<^verbatim>\<open>create_product\<close>: the same for \<^verbatim>\<open>type\<close> over \<^verbatim>\<open>PHYSICAL\<close>, \<^verbatim>\<open>DIGITAL\<close>,
  \<^verbatim>\<open>SERVICE\<close> and \<^verbatim>\<open>validatePayPalProduct\<close>, whenever the three required strings
  are there.
\<close>

theorem enum_fields:
  "(field order ''intent'' \<notin> {JStr ''CAPTURE'', JStr ''AUTHORIZE''} \<longrightarrow>
      (\<exists>m. validatePayPalOrder order = Inl (McpError InvalidParams m)))
   \<and> (\<forall>out. validatePayPalOrder order = Inr out \<longrightarrow> field out ''intent'' = field order ''intent'')
   \<and> (typeof order = TObject \<and> truthy order \<and>
       field order ''intent'' \<in> {JStr ''CAPTURE'', JStr ''AUTHORIZE''} \<and>
       isArray (field order ''purchase_units'') \<and> elems (field order ''purchase_units'') \<noteq> [] \<and>
       (\<forall>u\<in>set (elems (field order ''purchase_units'')). \<exists>y. validatePurchaseUnit u = Inr y) \<longrightarrow>
       (\<exists>out. validatePayPalOrder order = Inr out \<and> field out ''intent'' = field order ''intent''))
   \<and> (field product ''type'' \<notin> {JStr ''PHYSICAL'', JStr ''DIGITAL'', JStr ''SERVICE''} \<longrightarrow>
      (\<exists>m. validatePayPalProduct product = Inl (McpError InvalidParams m)))
   \<and> (\<forall>out. validatePayPalProduct product = Inr out \<longrightarrow> field out ''type'' = field product ''type'')
   \<and> (typeof product = TObject \<and> truthy product \<and>
       field product ''type'' \<in> {JStr ''PHYSICAL'', JStr ''DIGITAL'', JStr ''SERVICE''} \<and>
       typeof (field product ''name'') = TString \<and>
       typeof (field product ''description'') = TString \<and>
       typeof (field product ''category'') = TString \<longrightarrow>
       (\<exists>out. validatePayPalProduct product = Inr out \<and> field out ''type'' = field product ''type''))"
  using order_bad_intent [of order] order_intent_unchanged [of order] order_good_intent [of order]
    product_bad_type [of product] product_type_unchanged [of product] product_good_type [of product]
  by blast

theorem enum_fields_witness:
  "(\<exists>m. validatePayPalOrder (order_with_intent ''REFUND'') = Inl (McpError InvalidParams m))
   \<and> (\<exists>m. validatePayPalProduct (product_with_type ''GIFT'') = Inl (McpError InvalidParams m))
   \<and> (\<exists>out. validatePayPalOrder (order_with_intent ''CAPTURE'') = Inr out
          \<and> field out ''intent'' = JStr ''CAPTURE'')
   \<and> (\<exists>out. validatePayPalProduct (product_with_type ''DIGITAL'') = Inr out
          \<and> field out ''type'' = JStr ''DIGITAL'')"
  using enum_fields [of "order_with_intent ''REFUND''" "product_with_type ''GIFT''"]
    enum_fields [of "order_with_intent ''CAPTURE''" "product_with_type ''DIGITAL''"]
  by (simp add: order_with_intent_def product_with_type_def usd_unit_valid)

section \<open>The credential cache\<close>

lemma getAccessToken_cached:
  "truthy (accessToken s) \<Longrightarrow> getAccessToken up s = (Inr (accessToken s), s)"
  by (simp add: getAccessToken_def)

lemma getAccessToken_Inr:
  "getAccessToken up s = (Inr tok, s') \<Longrightarrow> accessToken s' = tok \<and> truthy tok"
  by (auto simp: getAccessToken_def Let_def split: if_splits reply.splits)

lemma getAccessToken_sent:
  "sent (snd (getAccessToken up s)) = sent s @ (if truthy (accessToken s) then [] else [token_request])"
  by (auto simp: getAccessToken_def Let_def split: if_splits reply.splits)

lemma getAccessToken_initial_ok:
  "getAccessToken upstream_ok initial = (Inr (JStr ''A21AA''), fetched)"
  by (simp add: getAccessToken_def initial_def upstream_ok_def fetched_def Let_def)

lemma first_fetch: "sent (snd (getAccessToken up initial)) = [token_request]"
  using getAccessToken_sent [of up initial] by (simp add: initial_def)

lemma truthy_fetched: "truthy (accessToken fetched)"
  by (simp add: fetched_def)

lemma accessToken_fetched: "accessToken fetched = JStr ''A21AA''"
  by (simp add: fetched_def)

lemma token_fetches_fetched: "token_fetches fetched = 1"
  by (simp add: fetched_def token_fetches_def)

section \<open>The handler\<close>

lemma on_catch_mcp: "\<exists>m'. on_catch (McpError c m) = Inl (McpError InternalError m')"
  by (simp add: on_catch_def)

lemma callTool_cached:
  "truthy args \<Longrightarrow> truthy (accessToken s) \<Longrightarrow>
   callTool num_str up name args s =
     (case dispatch num_str up (accessToken s) name args s of
        (Inl e, s2) \<Rightarrow> (on_catch e, s2)
      | (Inr env, s2) \<Rightarrow> (Inr env, s2))"
  by (simp add: callTool_def getAccessToken_cached)

lemma post_tool_invalid:
  "validate args = Inl e \<Longrightarrow> post_tool up tok validate path args s = (Inl e, s)"
  by (simp add: post_tool_def)

lemma dispatch_create_order:
  "dispatch num_str up token ''create_order'' args s =
     post_tool up token validatePayPalOrder ''/v2/checkout/orders'' args s"
  by (simp add: dispatch_def)

lemma dispatch_unknown:
  "name \<notin> set tool_names \<Longrightarrow>
   dispatch num_str up token name args s = (Inl (McpError MethodNotFound (''Unknown tool: '' @ name)), s)"
  by (simp add: dispatch_def tool_names_def)

lemma dispatch_get_dispute:
  "dispatch num_str up token ''get_dispute'' args s =
     (case validateDisputeParams args of
        Inl e \<Rightarrow> (Inl e, s)
      | Inr v \<Rightarrow>
          call_api up
            \<lparr>req_method = GET,
             req_url = api @ ''/v1/customer/disputes/'' @ str_of (field v ''dispute_id''),
             req_query = [], req_auth = Bearer token, req_body = JUndefined\<rparr> s)"
  by (simp add: dispatch_def)

lemma call_api_accessToken: "accessToken (snd (call_api up r s)) = accessToken s"
  by (simp add: call_api_def Let_def split: reply.splits)

lemma call_api_fetches:
  "req_auth r \<noteq> BasicClient \<Longrightarrow> token_fetches (snd (call_api up r s)) = token_fetches s"
  by (auto simp add: token_fetches_def sent_call_api token_request_def)

lemma post_tool_keeps:
  "accessToken (snd (post_tool up tok validate path args s)) = accessToken s
   \<and> token_fetches (snd (post_tool up tok validate path args s)) = token_fetches s"
  by (simp add: post_tool_def call_api_accessToken call_api_fetches split: sum.splits)

lemma validated_call_accessToken:
  "accessToken (snd (case r of Inl e \<Rightarrow> (Inl e, s) | Inr v \<Rightarrow> call_api up (rq v) s)) = accessToken s"
  by (simp add: call_api_accessToken split: sum.splits)

lemma validated_call_fetches:
  assumes "\<And>v. req_auth (rq v) \<noteq> BasicClient"
  shows "token_fetches (snd (case r of Inl e \<Rightarrow> (Inl e, s) | Inr v \<Rightarrow> call_api up (rq v) s))
           = token_fetches s"
  using assms by (simp add: call_api_fetches split: sum.splits)

lemma dispatch_accessToken:
  "accessToken (snd (dispatch num_str up tok name args s)) = accessToken s"
  unfolding dispatch_def
  by (simp add: post_tool_keeps validated_call_accessToken)

lemma dispatch_fetches:
  "token_fetches (snd (dispatch num_str up tok name args s)) = token_fetches s"
  unfolding dispatch_def
  by (simp add: post_tool_keeps validated_call_fetches)

lemma callTool_keeps:
  assumes "truthy (accessToken s)"
  shows "accessToken (snd (callTool num_str up name args s)) = accessToken s
       \<and> token_fetches (snd (callTool num_str up name args s)) = token_fetches s"
proof (cases "truthy args")
  case False
  then show ?thesis by (simp add: callTool_def)
next
  case True
  show ?thesis
    using dispatch_accessToken [of num_str up "accessToken s" name args s]
      dispatch_fetches [of num_str up "accessToken s" name args s]
    by (cases "dispatch num_str up (accessToken s) name args s")
       (auto simp: callTool_cached [OF True assms] split: sum.splits)
qed

lemma dispute_empty_invalid:
  "validateDisputeParams (JObj []) = Inl (McpError InvalidParams ''Invalid dispute ID'')"
  by (simp add: validateDisputeParams_def invalid_def)

lemma getAccessToken_not_mcp:
  "fst (getAccessToken up s) \<noteq> Inl (McpError c m)"
  by (auto simp: getAccessToken_def Let_def cannot_read_def split: if_splits reply.splits)

lemma on_catch_code: "on_catch e = Inl (McpError c m) \<Longrightarrow> c = InternalError"
  by (auto simp: on_catch_def split: if_splits)

lemma callTool_only_internal_error:
  assumes "truthy args" and "fst (callTool num_str up name args s) = Inl (McpError c m)"
  shows "c = InternalError"
proof (cases "getAccessToken up s")
  case (Pair r s1)
  show ?thesis
  proof (cases r)
    case (Inl e)
    with Pair assms getAccessToken_not_mcp [of up s c m] show ?thesis
      by (simp add: callTool_def)
  next
    case (Inr tok)
    show ?thesis
    proof (cases "dispatch num_str up tok name args s1")
      case (Pair r2 s2)
      with \<open>getAccessToken up s = (r, s1)\<close> Inr assms show ?thesis
        by (cases r2) (auto simp: callTool_def dest: on_catch_code)
    qed
  qed
qed

text \<open>
  Claim C1, where the code departs from it.  With a credential cached, a
  \<^verbatim>\<open>create_order\<close> call whose arguments \<^verbatim>\<open>validatePayPalOrder\<close> rejects with
  \<^verbatim>\<open>InvalidParams\<close> ends in a thrown \<^verbatim>\<open>McpError\<close> of code \<^verbatim>\<open>InternalError\<close>: the
  validator throws inside the \<^verbatim>\<open>try\<close>, and the \<^verbatim>\<open>catch\<close> block rewraps every
  error that is not the HTTP client's.  For every tool and every state, a call with
  arguments present that ends in a thrown \<^verbatim>\<open>McpError\<close> ends in one of code
  \<^verbatim>\<open>InternalError\<close>, so no validator's \<^verbatim>\<open>InvalidParams\<close> reaches the caller.
\<close>

theorem validator_error_rewrapped:
  assumes "truthy args"
  shows "(truthy (accessToken s) \<and> validatePayPalOrder args = Inl (McpError InvalidParams m) \<longrightarrow>
            (\<exists>m'. callTool num_str up ''create_order'' args s = (Inl (McpError InternalError m'), s)))
       \<and> (\<forall>c m'. fst (callTool num_str up name args s) = Inl (McpError c m') \<longrightarrow> c = InternalError)"
proof -
  have "\<exists>m'. callTool num_str up ''create_order'' args s = (Inl (McpError InternalError m'), s)"
    if "truthy (accessToken s)" and "validatePayPalOrder args = Inl (McpError InvalidParams m)"
    using assms that on_catch_mcp [of InvalidParams m]
    by (auto simp add: callTool_cached dispatch_create_order post_tool_invalid)
  moreover have "\<forall>c m'. fst (callTool num_str up name args s) = Inl (McpError c m') \<longrightarrow> c = InternalError"
    using callTool_only_internal_error [OF assms] by blast
  ultimately show ?thesis
    by blast
qed

theorem validator_error_rewrapped_witness:
  "truthy (order_with_intent ''REFUND'') \<and> truthy (accessToken cached)
   \<and> validatePayPalOrder (order_with_intent ''REFUND'') =
     Inl (McpError InvalidParams ''Missing required order fields'')
   \<and> (\<exists>m'. callTool any_num_str upstream_ok ''create_order'' (order_with_intent ''REFUND'') cached
        = (Inl (McpError InternalError m'), cached))"
proof -
  have t: "truthy (order_with_intent ''REFUND'')"
    by (simp add: order_with_intent_def)
  have c: "truthy (accessToken cached)"
    by (simp add: cached_def)
  note bad = order_refund_invalid
  from validator_error_rewrapped [OF t, where s = cached and m = "''Missing required order fields''"
      and num_str = any_num_str and up = upstream_ok and name = "''create_order''"] c bad
  have "\<exists>m'. callTool any_num_str upstream_ok ''create_order'' (order_with_intent ''REFUND'') cached
        = (Inl (McpError InternalError m'), cached)"
    by blast
  with t c bad show ?thesis
    by blast
qed

text \<open>
  Claim C2, where the code departs from it.  With arguments present and a credential
  cached, a call that names a tool outside the registry ends in a thrown \<^verbatim>\<open>McpError\<close>
  of code \<^verbatim>\<open>InternalError\<close>: the \<^verbatim>\<open>default\<close> case throws \<^verbatim>\<open>MethodNotFound\<close> inside
  the \<^verbatim>\<open>try\<close>, and the \<^verbatim>\<open>catch\<close> block rewraps it.
\<close>

theorem unknown_tool_rewrapped:
  assumes "name \<notin> set tool_names" and "truthy args" and "truthy (accessToken s)"
  shows "\<exists>m. callTool num_str up name args s = (Inl (McpError InternalError m), s)"
  using assms on_catch_mcp [of MethodNotFound "''Unknown tool: '' @ name"]
  by (auto simp add: callTool_cached dispatch_unknown)

theorem unknown_tool_rewrapped_witness:
  "''refund_payment'' \<notin> set tool_names
   \<and> (\<exists>m. callTool any_num_str upstream_ok ''refund_payment'' (JObj []) cached
          = (Inl (McpError InternalError m), cached))"
  using unknown_tool_rewrapped [of "''refund_payment''" "JObj []" cached any_num_str upstream_ok]
  by (simp add: tool_names_def cached_def)

text \<open>
  Claim C3 as stated fails: in a fresh process a \<^verbatim>\<open>get_dispute\<close> call with the empty
  object sends the token request before \<^verbatim>\<open>validateDisputeParams\<close> runs.
\<close>

theorem get_dispute_token_fetch_first:
  "validateDisputeParams (JObj []) = Inl (McpError InvalidParams ''Invalid dispute ID'')
   \<and> sent (snd (callTool any_num_str upstream_ok ''get_dispute'' (JObj []) initial)) = [token_request]"
  by (simp add: dispute_empty_invalid callTool_def getAccessToken_initial_ok dispatch_get_dispute
        on_catch_def fetched_def)

text \<open>
  Claim C3, amended.  A \<^verbatim>\<open>get_dispute\<close> call whose arguments \<^verbatim>\<open>validateDisputeParams\<close>
  rejects ends in a thrown error and sends no request to the dispute endpoint: the only
  request it can send is the token fetch, and it sends that one exactly when the
  arguments are present (truthy) and no credential is cached.
\<close>

theorem get_dispute_invalid_no_tool_request:
  assumes "validateDisputeParams args = Inl e"
  shows "isl (fst (callTool num_str up ''get_dispute'' args s))
       \<and> sent (snd (callTool num_str up ''get_dispute'' args s)) =
           sent s @ (if truthy args \<and> \<not> truthy (accessToken s) then [token_request] else [])"
proof (cases "truthy args")
  case False
  then show ?thesis by (simp add: callTool_def)
next
  case True
  have e: "\<not> isAxiosError e"
    using assms by (auto simp: validateDisputeParams_def invalid_def split: if_splits)
  show ?thesis
  proof (cases "getAccessToken up s")
    case (Pair r s1)
    have s1: "sent s1 = sent s @ (if truthy (accessToken s) then [] else [token_request])"
      using getAccessToken_sent [of up s] Pair by simp
    show ?thesis
      using True Pair assms e s1
      by (cases r) (auto simp: callTool_def dispatch_get_dispute on_catch_def)
  qed
qed

theorem get_dispute_invalid_no_tool_request_witness:
  "validateDisputeParams (JObj []) = Inl (McpError InvalidParams ''Invalid dispute ID'')
   \<and> isl (fst (callTool any_num_str upstream_ok ''get_dispute'' (JObj []) cached))
   \<and> sent (snd (callTool any_num_str upstream_ok ''get_dispute'' (JObj []) cached)) = []"
  using get_dispute_invalid_no_tool_request [of "JObj []" "McpError InvalidParams ''Invalid dispute ID''"
       any_num_str upstream_ok cached]
  by (simp add: dispute_empty_invalid cached_def)

text \<open>
  The cache holds only a token that was obtained: after a fetch that fails, the next call
  of the token provider fetches again.
\<close>

lemma failed_fetch_caches_nothing:
  "sent (snd (getAccessToken upstream_flaky (snd (getAccessToken upstream_flaky initial))))
     = [token_request, token_request]"
  by (simp add: getAccessToken_def initial_def upstream_flaky_def Let_def)

text \<open>
  Claim C5.  The first call of the token provider in a fresh process sends exactly one
  token request.  A call that returns a token leaves that token, a truthy value, in the
  cache, and the next call, whatever the upstream would answer, returns the identical
  value and leaves the state as it is: it sends no request.  As long as a credential is
  cached, every call of the token provider returns it without a request, and no tool call
  changes the cached credential or sends a token request.
\<close>

theorem token_cached_after_success:
  "sent (snd (getAccessToken up initial)) = [token_request]
   \<and> (getAccessToken up s = (Inr tok, s') \<longrightarrow>
        accessToken s' = tok \<and> truthy tok \<and> getAccessToken up2 s' = (Inr tok, s'))
   \<and> (truthy (accessToken s) \<longrightarrow>
        getAccessToken up s = (Inr (accessToken s), s)
      \<and> accessToken (snd (callTool num_str up name args s)) = accessToken s
      \<and> token_fetches (snd (callTool num_str up name args s)) = token_fetches s)"
proof -
  have "accessToken s' = tok \<and> truthy tok \<and> getAccessToken up2 s' = (Inr tok, s')"
    if "getAccessToken up s = (Inr tok, s')"
    using getAccessToken_Inr [OF that] getAccessToken_cached [of s' up2] by simp
  then show ?thesis
    using first_fetch [of up] getAccessToken_cached [of s up]
      callTool_keeps [of s num_str up name args]
    by blast
qed

theorem token_cached_after_success_witness:
  "getAccessToken upstream_ok initial = (Inr (JStr ''A21AA''), fetched)
   \<and> sent fetched = [token_request]
   \<and> truthy (accessToken fetched)
   \<and> getAccessToken upstream_flaky fetched = (Inr (JStr ''A21AA''), fetched)
   \<and> token_fetches (snd (callTool any_num_str upstream_flaky ''get_dispute''
        (JObj [(''dispute_id'', JStr ''PP-1'')]) fetched)) = 1"
proof -
  have a: "getAccessToken upstream_ok initial = (Inr (JStr ''A21AA''), fetched)"
    by (rule getAccessToken_initial_ok)
  have s: "sent fetched = [token_request]"
    by (simp add: fetched_def)
  note first = token_cached_after_success [where up = upstream_ok and s = initial
      and tok = "JStr ''A21AA''" and s' = fetched and ?up2.0 = upstream_flaky]
  from first a have b: "truthy (JStr ''A21AA'')"
    and c: "getAccessToken upstream_flaky fetched = (Inr (JStr ''A21AA''), fetched)"
    by blast+
  have t: "truthy (accessToken fetched)"
    by (rule truthy_fetched)
  note later = token_cached_after_success [where up = upstream_flaky and s = fetched
      and num_str = any_num_str and name = "''get_dispute''"
      and args = "JObj [(''dispute_id'', JStr ''PP-1'')]"]
  from later t have d: "token_fetches (snd (callTool any_num_str upstream_flaky ''get_dispute''
        (JObj [(''dispute_id'', JStr ''PP-1'')]) fetched)) = token_fetches fetched"
    by blast
  from a s t c d show ?thesis
    unfolding token_fetches_fetched by blast
qed

section \<open>The validators are projections\<close>

lemma map_of_put_field: "k' \<noteq> k \<Longrightarrow> map_of (put_field k v fs) k' = map_of fs k'"
  by (induction fs) auto

lemma field_set_field_other [simp]: "k \<noteq> k' \<Longrightarrow> field (set_field a k v) k' = field a k'"
  by (cases a) (simp_all add: map_of_put_field)

lemma typeof_set_field [simp]: "typeof (set_field a k v) = typeof a"
  by (cases a) simp_all

lemma truthy_set_field [simp]: "truthy (set_field a k v) = truthy a"
  by (cases a) simp_all

lemma copy_string_set_field [simp]: "k \<noteq> k' \<Longrightarrow> copy_string (set_field a k v) k' = copy_string a k'"
  by (simp add: copy_string_def)

lemma proj_payment_token:
  "k \<notin> set [''customer'', ''payment_source''] \<Longrightarrow>
   validatePaymentToken (set_field args k x) = validatePaymentToken args"
  by (simp add: validatePaymentToken_def Let_def cong: sum.case_cong if_cong)

lemma proj_payment:
  "k \<notin> set [''intent'', ''payer'', ''transactions''] \<Longrightarrow>
   validatePayment (set_field args k x) = validatePayment args"
  by (simp add: validatePayment_def Let_def cong: sum.case_cong if_cong)

lemma proj_payout:
  "k \<notin> set [''sender_batch_header'', ''items''] \<Longrightarrow>
   validatePayout (set_field args k x) = validatePayout args"
  by (simp add: validatePayout_def Let_def cong: sum.case_cong if_cong)

lemma proj_referenced_payout:
  "k \<notin> set [''referenced_payouts''] \<Longrightarrow>
   validateReferencedPayout (set_field args k x) = validateReferencedPayout args"
  by (simp add: validateReferencedPayout_def Let_def cong: sum.case_cong if_cong)

lemma proj_order:
  "k \<notin> set [''intent'', ''purchase_units''] \<Longrightarrow>
   validatePayPalOrder (set_field args k x) = validatePayPalOrder args"
  by (simp add: validatePayPalOrder_def Let_def cong: sum.case_cong if_cong)

lemma proj_partner_referral:
  "k \<notin> set [''individual_owners'', ''business_entity'', ''email''] \<Longrightarrow>
   validatePartnerReferral (set_field args k x) = validatePartnerReferral args"
  by (simp add: validatePartnerReferral_def Let_def cong: sum.case_cong if_cong)

lemma proj_web_profile:
  "k \<notin> set [''name'', ''presentation'', ''input_fields'', ''flow_config''] \<Longrightarrow>
   validateWebProfile (set_field args k x) = validateWebProfile args"
  by (simp add: validateWebProfile_def Let_def cong: sum.case_cong if_cong)

lemma proj_product:
  "k \<notin> set [''name'', ''description'', ''type'', ''category'', ''image_url'', ''home_url''] \<Longrightarrow>
   validatePayPalProduct (set_field args k x) = validatePayPalProduct args"
  by (simp add: validatePayPalProduct_def Let_def cong: sum.case_cong if_cong)

lemma proj_pagination:
  "k \<notin> set [''page_size'', ''page''] \<Longrightarrow>
   validatePaginationParams (set_field args k x) = validatePaginationParams args"
  by (simp add: validatePaginationParams_def Let_def cong: sum.case_cong if_cong)

lemma proj_dispute:
  "k \<notin> set [''dispute_id''] \<Longrightarrow>
   validateDisputeParams (set_field args k x) = validateDisputeParams args"
  by (simp add: validateDisputeParams_def Let_def cong: sum.case_cong if_cong)

lemma proj_token:
  "k \<notin> set [''access_token''] \<Longrightarrow>
   validateTokenParams (set_field args k x) = validateTokenParams args"
  by (simp add: validateTokenParams_def Let_def cong: sum.case_cong if_cong)

lemma proj_invoice:
  "k \<notin> set [''detail'', ''primary_recipients'', ''items''] \<Longrightarrow>
   validatePayPalInvoice (set_field args k x) = validatePayPalInvoice args"
  by (simp add: validatePayPalInvoice_def Let_def cong: sum.case_cong if_cong)

lemma keys_payment_token:
  "validatePaymentToken args = Inr out \<Longrightarrow> own_keys out \<subseteq> set [''customer'', ''payment_source'']"
  by (auto simp: validatePaymentToken_def invalid_def Let_def split: if_splits)

lemma keys_payment:
  "validatePayment args = Inr out \<Longrightarrow> own_keys out \<subseteq> set [''intent'', ''payer'', ''transactions'']"
  by (auto simp: validatePayment_def invalid_def Let_def split: if_splits sum.splits)

lemma keys_payout:
  "validatePayout args = Inr out \<Longrightarrow> own_keys out \<subseteq> set [''sender_batch_header'', ''items'']"
  by (auto simp: validatePayout_def invalid_def Let_def split: if_splits sum.splits)

lemma keys_referenced_payout:
  "validateReferencedPayout args = Inr out \<Longrightarrow> own_keys out \<subseteq> set [''referenced_payouts'']"
  by (auto simp: validateReferencedPayout_def invalid_def Let_def split: if_splits sum.splits)

lemma keys_order:
  "validatePayPalOrder args = Inr out \<Longrightarrow> own_keys out \<subseteq> set [''intent'', ''purchase_units'']"
  by (auto simp: validatePayPalOrder_def invalid_def Let_def split: if_splits sum.splits)

lemma keys_partner_referral:
  "validatePartnerReferral args = Inr out \<Longrightarrow>
   own_keys out \<subseteq> set [''individual_owners'', ''business_entity'', ''email'']"
  by (auto simp: validatePartnerReferral_def invalid_def Let_def split: if_splits sum.splits)

lemma keys_web_profile:
  "validateWebProfile args = Inr out \<Longrightarrow>
   own_keys out \<subseteq> set [''name'', ''presentation'', ''input_fields'', ''flow_config'']"
  by (auto simp: validateWebProfile_def invalid_def Let_def split: if_splits)

lemma keys_product:
  "validatePayPalProduct args = Inr out \<Longrightarrow>
   own_keys out \<subseteq> set [''name'', ''description'', ''type'', ''category'', ''image_url'', ''home_url'']"
  by (auto simp: validatePayPalProduct_def invalid_def copy_string_def Let_def split: if_splits)

lemma keys_pagination:
  "validatePaginationParams args = Inr out \<Longrightarrow> own_keys out \<subseteq> set [''page_size'', ''page'']"
  by (auto simp: validatePaginationParams_def Let_def split: if_splits)

lemma keys_dispute:
  "validateDisputeParams args = Inr out \<Longrightarrow> own_keys out \<subseteq> set [''dispute_id'']"
  by (auto simp: validateDisputeParams_def invalid_def split: if_splits)

lemma keys_token:
  "validateTokenParams args = Inr out \<Longrightarrow> own_keys out \<subseteq> set [''access_token'']"
  by (auto simp: validateTokenParams_def invalid_def split: if_splits)

lemma keys_invoice:
  "validatePayPalInvoice args = Inr out \<Longrightarrow>
   own_keys out \<subseteq> set [''detail'', ''primary_recipients'', ''items'']"
  by (auto simp: validatePayPalInvoice_def invalid_def Let_def split: if_splits sum.splits)

lemma validators_invariant:
  "\<forall>p\<in>set validators. k \<notin> set (snd p) \<longrightarrow> fst p (set_field args k x) = fst p args"
  unfolding validators_def
  by (simp add: proj_payment_token proj_payment proj_payout proj_referenced_payout proj_order
        proj_partner_referral proj_web_profile proj_product proj_pagination proj_dispute
        proj_token proj_invoice)

lemma validators_keys:
  "\<forall>p\<in>set validators. \<forall>out. fst p args = Inr out \<longrightarrow> own_keys out \<subseteq> set (snd p)"
  unfolding validators_def
  using keys_payment_token [of args] keys_payment [of args] keys_payout [of args]
    keys_referenced_payout [of args] keys_order [of args] keys_partner_referral [of args]
    keys_web_profile [of args] keys_product [of args] keys_pagination [of args]
    keys_dispute [of args] keys_token [of args] keys_invoice [of args]
  by simp

text \<open>
  Claim C4.  For every validator of the source and every input, setting a top-level
  property that the validator does not read leaves the result of the validator as it is
  (the same output, or the same error), and the property is no key of the output: the
  keys of the output are among the properties the validator reads.
\<close>

theorem unknown_fields_projected_away:
  assumes "(validate, keys) \<in> set validators" and "k \<notin> set keys"
  shows "validate (set_field args k x) = validate args
       \<and> (\<forall>out. validate (set_field args k x) = Inr out \<longrightarrow>
             k \<notin> own_keys out \<and> own_keys out \<subseteq> set keys)"
proof -
  from assms validators_invariant [of k args x]
  have same: "validate (set_field args k x) = validate args"
    by fastforce
  from assms(1) validators_keys [of args]
  have "\<forall>out. validate args = Inr out \<longrightarrow> own_keys out \<subseteq> set keys"
    by fastforce
  with same assms(2) show ?thesis
    by auto
qed

theorem unknown_fields_projected_away_witness:
  "(validatePayPalOrder, [''intent'', ''purchase_units'']) \<in> set validators
   \<and> ''payer'' \<notin> set [''intent'', ''purchase_units'']
   \<and> field smuggled_order ''payer'' = JObj [(''payer_id'', JStr ''X'')]
   \<and> validatePayPalOrder smuggled_order = validatePayPalOrder (order_with_intent ''CAPTURE'')"
  using unknown_fields_projected_away [of validatePayPalOrder "[''intent'', ''purchase_units'']" "''payer''"
      "order_with_intent ''CAPTURE''" "JObj [(''payer_id'', JStr ''X'')]"]
  by (simp add: validators_def smuggled_order_def) (simp add: order_with_intent_def)


section \<open>Optional fields that are not type-checked\<close>

lemma ref_payout_null_state_throws:
  "validateRefPayout (ref_payout_with_state JNull) =
     Inl (TypeError ''Cannot read properties of null (reading 'status')'')"
  by (simp add: validateRefPayout_def ref_payout_with_state_def cannot_read_def invalid_def Let_def)

text \<open>
  Claim C8, where the code departs from it.  \<^verbatim>\<open>validatePayment\<close> copies the optional
  \<^verbatim>\<open>payer.funding_instruments\<close> into its output whatever its type: the number 42, or
  any other value, arrives in the validated payment.
\<close>

theorem funding_instruments_copied_unchecked:
  "validatePayment (payment_with_funding fi) =
     Inr (JObj [(''intent'', JStr ''sale''),
                (''payer'', JObj [(''payment_method'', JStr ''credit_card''),
                                  (''funding_instruments'', fi)]),
                (''transactions'', JArr [JObj [(''amount'',
                    JObj [(''total'', JStr ''1.00''), (''currency'', JStr ''USD'')])]])])"
  by (simp add: validatePayment_def payment_with_funding_def validateTransaction_def
        copy_string_def invalid_def Let_def)

theorem funding_instruments_copied_unchecked_witness:
  "typeof (JNum 42) = TNumber
   \<and> (\<exists>out. validatePayment (payment_with_funding (JNum 42)) = Inr out
          \<and> field (field out ''payer'') ''funding_instruments'' = JNum 42)"
  using funding_instruments_copied_unchecked [of "JNum 42"]
  by simp

section \<open>Element-wise validation of nested arrays\<close>




















section \<open>Absent fields and defaults\<close>

lemma if_invalid_eq_Inr [simp]:
  "((if c then invalid m else r) = Inr out) = (\<not> c \<and> r = Inr out)"
  by (simp add: invalid_def)

lemma if_thrown_eq_Inr [simp]:
  "((if c then Inl e else r) = Inr out) = (\<not> c \<and> r = Inr out)"
  by simp

lemma case_thrown_eq_Inr [simp]:
  "((case r of Inl e \<Rightarrow> Inl e | Inr v \<Rightarrow> g v) = Inr out) = (\<exists>v. r = Inr v \<and> g v = Inr out)"
  by (cases r) auto

lemma map_of_copy_string [simp]:
  "map_of (copy_string src k) k' =
     (if k' = k \<and> typeof (field src k) = TString then Some (field src k) else None)"
  by (simp add: copy_string_def)

lemma map_of_copy_number [simp]:
  "map_of (copy_number src k) k' =
     (if k' = k \<and> typeof (field src k) = TNumber then Some (field src k) else None)"
  by (simp add: copy_number_def)

lemma absent_payment_token:
  "validatePaymentToken args = Inr out \<Longrightarrow>
   keeps_absent (field args ''customer'') (field out ''customer'') [''email_address'']
   \<and> keeps_absent (field args ''payment_source'') (field out ''payment_source'') [''card'', ''paypal'']
   \<and> keeps_absent (field (field args ''payment_source'') ''paypal'')
        (field (field out ''payment_source'') ''paypal'') [''account_id'']"
  by (clarsimp simp: validatePaymentToken_def keeps_absent_def Let_def map_add_def)

lemma absent_transaction:
  "validateTransaction t = Inr out \<Longrightarrow> keeps_absent t out [''description'']"
  by (clarsimp simp: validateTransaction_def keeps_absent_def Let_def map_add_def)

lemma absent_payment:
  "validatePayment args = Inr out \<Longrightarrow>
   keeps_absent (field args ''payer'') (field out ''payer'') [''funding_instruments'']"
  by (clarsimp simp: validatePayment_def keeps_absent_def Let_def map_add_def)

lemma absent_payout_item:
  "validatePayoutItem i = Inr out \<Longrightarrow> keeps_absent i out [''note'', ''sender_item_id'']"
  by (clarsimp simp: validatePayoutItem_def keeps_absent_def Let_def map_add_def)

lemma absent_payout:
  "validatePayout args = Inr out \<Longrightarrow>
   keeps_absent (field args ''sender_batch_header'') (field out ''sender_batch_header'')
     [''email_subject'', ''recipient_type'']"
  by (clarsimp simp: validatePayout_def keeps_absent_def Let_def map_add_def)

lemma absent_purchase_unit:
  "validatePurchaseUnit u = Inr out \<Longrightarrow> keeps_absent u out [''description'', ''reference_id'']"
  by (clarsimp simp: validatePurchaseUnit_def keeps_absent_def Let_def map_add_def)

lemma absent_web_profile:
  "validateWebProfile args = Inr out \<Longrightarrow>
   keeps_absent (field args ''presentation'') (field out ''presentation'')
     [''brand_name'', ''logo_image'', ''locale_code'']
   \<and> keeps_absent (field args ''input_fields'') (field out ''input_fields'')
     [''no_shipping'', ''address_override'']
   \<and> keeps_absent (field args ''flow_config'') (field out ''flow_config'')
     [''landing_page_type'', ''bank_txn_pending_url'']"
  by (clarsimp simp: validateWebProfile_def keeps_absent_def Let_def map_add_def)

lemma absent_product:
  "validatePayPalProduct args = Inr out \<Longrightarrow> keeps_absent args out [''image_url'', ''home_url'']"
  by (clarsimp simp: validatePayPalProduct_def keeps_absent_def Let_def map_add_def)

lemma absent_pagination:
  "validatePaginationParams args = Inr out \<Longrightarrow> keeps_absent args out [''page_size'', ''page'']"
  by (auto simp: validatePaginationParams_def keeps_absent_def Let_def split: if_splits)

lemma default_ref_payout:
  "validateRefPayout r = Inr out \<Longrightarrow>
   (field r ''item_id'' = JUndefined \<longrightarrow> field out ''item_id'' = JStr [])
   \<and> (field r ''processing_state'' = JUndefined \<longrightarrow>
        field out ''processing_state'' = JObj [(''status'', JStr []), (''reason'', JUndefined)])"
  by (clarsimp simp: validateRefPayout_def Let_def)

lemma default_web_profile:
  "validateWebProfile args = Inr out \<Longrightarrow>
   (field args ''presentation'' = JUndefined \<longrightarrow> field out ''presentation'' = JObj [])
   \<and> (field args ''input_fields'' = JUndefined \<longrightarrow> field out ''input_fields'' = JObj [])
   \<and> (field args ''flow_config'' = JUndefined \<longrightarrow> field out ''flow_config'' = JObj [])"
  by (clarsimp simp: validateWebProfile_def Let_def)

lemma absent_payment_source_parts:
  "validatePaymentToken args = Inr out \<Longrightarrow>
   keeps_absent (field (field args ''payment_source'') ''card'')
        (field (field out ''payment_source'') ''card'')
        [''name'', ''number'', ''expiry'', ''security_code'']
   \<and> keeps_absent (field (field args ''payment_source'') ''paypal'')
        (field (field out ''payment_source'') ''paypal'') [''email_address'', ''account_id'']"
  by (clarsimp simp: validatePaymentToken_def keeps_absent_def Let_def map_add_def)

lemma ref_payout_state_fields:
  "validateRefPayout r = Inr out \<Longrightarrow>
   (\<not> truthy (field (field r ''processing_state'') ''status'') \<longrightarrow>
      field (field out ''processing_state'') ''status'' = JStr [])
   \<and> (field (field r ''processing_state'') ''status'' = JUndefined \<longrightarrow>
      field (field out ''processing_state'') ''status'' = JStr [])
   \<and> keeps_absent (field r ''processing_state'') (field out ''processing_state'') [''reason'']"
  by (cases "field r ''processing_state''")
     (clarsimp simp: validateRefPayout_def keeps_absent_def Let_def)+

lemma ref_payout_empty_state:
  "validateRefPayout (ref_payout_with_state (JObj [])) = Inr (JObj
         [(''item_id'', JStr []),
          (''processing_state'', JObj [(''status'', JStr []), (''reason'', JUndefined)]),
          (''reference_id'', JStr ''R1''), (''reference_type'', JStr ''TRANSACTION_ID''),
          (''payout_amount'', JObj [(''currency_code'', JStr ''USD''), (''value'', JStr ''1.00'')]),
          (''payout_destination'', JStr ''D1'')])"
  by (simp add: validateRefPayout_def ref_payout_with_state_def invalid_def Let_def)

text \<open>
  Claim C10 as stated fails: a referenced payout without \<^verbatim>\<open>item_id\<close> and without
  \<^verbatim>\<open>processing_state\<close> is validated into one whose \<^verbatim>\<open>item_id\<close> is the empty string
  and whose \<^verbatim>\<open>processing_state\<close> is an object with the empty string as \<^verbatim>\<open>status\<close>.
\<close>

theorem referenced_payout_defaults:
  "field bare_ref_payout ''item_id'' = JUndefined
   \<and> field bare_ref_payout ''processing_state'' = JUndefined
   \<and> validateReferencedPayout (JObj [(''referenced_payouts'', JArr [bare_ref_payout])]) =
       Inr (JObj [(''referenced_payouts'', JArr [JObj
         [(''item_id'', JStr []),
          (''processing_state'', JObj [(''status'', JStr []), (''reason'', JUndefined)]),
          (''reference_id'', JStr ''R1''), (''reference_type'', JStr ''TRANSACTION_ID''),
          (''payout_amount'', JObj [(''currency_code'', JStr ''USD''), (''value'', JStr ''1.00'')]),
          (''payout_destination'', JStr ''D1'')]])])"
  by (simp add: validateReferencedPayout_def validateRefPayout_def bare_ref_payout_def invalid_def
        Let_def)

text \<open>
  Claim C10, amended.  Every optional field that a validator copies stays absent
  (\<^verbatim>\<open>undefined\<close>) in the validated output when the input lacks it: the customer's
  \<^verbatim>\<open>email_address\<close>, the \<^verbatim>\<open>card\<close> and \<^verbatim>\<open>paypal\<close> payment sources with each of
  their fields; the payer's \<^verbatim>\<open>funding_instruments\<close> and a transaction's
  \<^verbatim>\<open>description\<close>; the batch header's \<^verbatim>\<open>email_subject\<close> and \<^verbatim>\<open>recipient_type\<close> and
  a payout item's \<^verbatim>\<open>note\<close> and \<^verbatim>\<open>sender_item_id\<close>; a purchase unit's
  \<^verbatim>\<open>description\<close> and \<^verbatim>\<open>reference_id\<close>; the seven settings of a web profile; a
  product's \<^verbatim>\<open>image_url\<close> and \<^verbatim>\<open>home_url\<close>; \<^verbatim>\<open>page_size\<close> and \<^verbatim>\<open>page\<close>; the
  \<^verbatim>\<open>reason\<close> of a referenced payout's \<^verbatim>\<open>processing_state\<close>.
  The defaults written in the code are the exceptions.  A referenced payout that lacks
  \<^verbatim>\<open>item_id\<close> gets the empty string; one that lacks \<^verbatim>\<open>processing_state\<close> gets an
  object with the empty string as \<^verbatim>\<open>status\<close> and no \<^verbatim>\<open>reason\<close>; and the
  \<^verbatim>\<open>status\<close> of its \<^verbatim>\<open>processing_state\<close> is the empty string whenever the input
  has no \<^verbatim>\<open>status\<close> there, or a falsy one, whether \<^verbatim>\<open>processing_state\<close> itself is
  present or not.  A web profile that lacks \<^verbatim>\<open>presentation\<close>, \<^verbatim>\<open>input_fields\<close> or
  \<^verbatim>\<open>flow_config\<close> gets an empty object there.
\<close>

theorem absent_fields_stay_absent:
  "(\<forall>args out. validatePaymentToken args = Inr out \<longrightarrow>
      keeps_absent (field args ''customer'') (field out ''customer'') [''email_address'']
    \<and> keeps_absent (field args ''payment_source'') (field out ''payment_source'') [''card'', ''paypal'']
    \<and> keeps_absent (field (field args ''payment_source'') ''paypal'')
         (field (field out ''payment_source'') ''paypal'') [''account_id''])
   \<and> (\<forall>args out. validatePayment args = Inr out \<longrightarrow>
      keeps_absent (field args ''payer'') (field out ''payer'') [''funding_instruments''])
   \<and> (\<forall>t out. validateTransaction t = Inr out \<longrightarrow> keeps_absent t out [''description''])
   \<and> (\<forall>args out. validatePayout args = Inr out \<longrightarrow>
      keeps_absent (field args ''sender_batch_header'') (field out ''sender_batch_header'')
        [''email_subject'', ''recipient_type''])
   \<and> (\<forall>i out. validatePayoutItem i = Inr out \<longrightarrow> keeps_absent i out [''note'', ''sender_item_id''])
   \<and> (\<forall>u out. validatePurchaseUnit u = Inr out \<longrightarrow>
      keeps_absent u out [''description'', ''reference_id''])
   \<and> (\<forall>args out. validateWebProfile args = Inr out \<longrightarrow>
      keeps_absent (field args ''presentation'') (field out ''presentation'')
        [''brand_name'', ''logo_image'', ''locale_code'']
    \<and> keeps_absent (field args ''input_fields'') (field out ''input_fields'')
        [''no_shipping'', ''address_override'']
    \<and> keeps_absent (field args ''flow_config'') (field out ''flow_config'')
        [''landing_page_type'', ''bank_txn_pending_url''])
   \<and> (\<forall>args out. validatePayPalProduct args = Inr out \<longrightarrow>
      keeps_absent args out [''image_url'', ''home_url''])
   \<and> (\<forall>args out. validatePaginationParams args = Inr out \<longrightarrow>
      keeps_absent args out [''page_size'', ''page''])
   \<and> (\<forall>args out. validatePaymentToken args = Inr out \<longrightarrow>
      keeps_absent (field (field args ''payment_source'') ''card'')
        (field (field out ''payment_source'') ''card'')
        [''name'', ''number'', ''expiry'', ''security_code'']
    \<and> keeps_absent (field (field args ''payment_source'') ''paypal'')
        (field (field out ''payment_source'') ''paypal'') [''email_address'', ''account_id''])
   \<and> (\<forall>r out. validateRefPayout r = Inr out \<longrightarrow>
      keeps_absent (field r ''processing_state'') (field out ''processing_state'') [''reason''])
   \<and> (\<forall>r out. validateRefPayout r = Inr out \<longrightarrow>
      (field r ''item_id'' = JUndefined \<longrightarrow> field out ''item_id'' = JStr [])
    \<and> (field r ''processing_state'' = JUndefined \<longrightarrow>
         field out ''processing_state'' = JObj [(''status'', JStr []), (''reason'', JUndefined)])
    \<and> (field (field r ''processing_state'') ''status'' = JUndefined \<longrightarrow>
         field (field out ''processing_state'') ''status'' = JStr [])
    \<and> (\<not> truthy (field (field r ''processing_state'') ''status'') \<longrightarrow>
         field (field out ''processing_state'') ''status'' = JStr []))
   \<and> (\<forall>args out. validateWebProfile args = Inr out \<longrightarrow>
      (field args ''presentation'' = JUndefined \<longrightarrow> field out ''presentation'' = JObj [])
    \<and> (field args ''input_fields'' = JUndefined \<longrightarrow> field out ''input_fields'' = JObj [])
    \<and> (field args ''flow_config'' = JUndefined \<longrightarrow> field out ''flow_config'' = JObj []))"
proof (intro conjI)
  show "\<forall>args out. validatePaymentToken args = Inr out \<longrightarrow>
      keeps_absent (field args ''customer'') (field out ''customer'') [''email_address'']
    \<and> keeps_absent (field args ''payment_source'') (field out ''payment_source'') [''card'', ''paypal'']
    \<and> keeps_absent (field (field args ''payment_source'') ''paypal'')
         (field (field out ''payment_source'') ''paypal'') [''account_id'']"
    using absent_payment_token by blast
  show "\<forall>args out. validatePayment args = Inr out \<longrightarrow>
      keeps_absent (field args ''payer'') (field out ''payer'') [''funding_instruments'']"
    using absent_payment by blast
  show "\<forall>t out. validateTransaction t = Inr out \<longrightarrow> keeps_absent t out [''description'']"
    using absent_transaction by blast
  show "\<forall>args out. validatePayout args = Inr out \<longrightarrow>
      keeps_absent (field args ''sender_batch_header'') (field out ''sender_batch_header'')
        [''email_subject'', ''recipient_type'']"
    using absent_payout by blast
  show "\<forall>i out. validatePayoutItem i = Inr out \<longrightarrow> keeps_absent i out [''note'', ''sender_item_id'']"
    using absent_payout_item by blast
  show "\<forall>u out. validatePurchaseUnit u = Inr out \<longrightarrow>
      keeps_absent u out [''description'', ''reference_id'']"
    using absent_purchase_unit by blast
  show "\<forall>args out. validateWebProfile args = Inr out \<longrightarrow>
      keeps_absent (field args ''presentation'') (field out ''presentation'')
        [''brand_name'', ''logo_image'', ''locale_code'']
    \<and> keeps_absent (field args ''input_fields'') (field out ''input_fields'')
        [''no_shipping'', ''address_override'']
    \<and> keeps_absent (field args ''flow_config'') (field out ''flow_config'')
        [''landing_page_type'', ''bank_txn_pending_url'']"
    using absent_web_profile by blast
  show "\<forall>args out. validatePayPalProduct args = Inr out \<longrightarrow>
      keeps_absent args out [''image_url'', ''home_url'']"
    using absent_product by blast
  show "\<forall>args out. validatePaginationParams args = Inr out \<longrightarrow>
      keeps_absent args out [''page_size'', ''page'']"
    using absent_pagination by blast
  show "\<forall>args out. validatePaymentToken args = Inr out \<longrightarrow>
      keeps_absent (field (field args ''payment_source'') ''card'')
        (field (field out ''payment_source'') ''card'')
        [''name'', ''number'', ''expiry'', ''security_code'']
    \<and> keeps_absent (field (field args ''payment_source'') ''paypal'')
        (field (field out ''payment_source'') ''paypal'') [''email_address'', ''account_id'']"
    using absent_payment_source_parts by blast
  show "\<forall>r out. validateRefPayout r = Inr out \<longrightarrow>
      keeps_absent (field r ''processing_state'') (field out ''processing_state'') [''reason'']"
    using ref_payout_state_fields by blast
  show "\<forall>r out. validateRefPayout r = Inr out \<longrightarrow>
      (field r ''item_id'' = JUndefined \<longrightarrow> field out ''item_id'' = JStr [])
    \<and> (field r ''processing_state'' = JUndefined \<longrightarrow>
         field out ''processing_state'' = JObj [(''status'', JStr []), (''reason'', JUndefined)])
    \<and> (field (field r ''processing_state'') ''status'' = JUndefined \<longrightarrow>
         field (field out ''processing_state'') ''status'' = JStr [])
    \<and> (\<not> truthy (field (field r ''processing_state'') ''status'') \<longrightarrow>
         field (field out ''processing_state'') ''status'' = JStr [])"
    using default_ref_payout ref_payout_state_fields by blast
  show "\<forall>args out. validateWebProfile args = Inr out \<longrightarrow>
      (field args ''presentation'' = JUndefined \<longrightarrow> field out ''presentation'' = JObj [])
    \<and> (field args ''input_fields'' = JUndefined \<longrightarrow> field out ''input_fields'' = JObj [])
    \<and> (field args ''flow_config'' = JUndefined \<longrightarrow> field out ''flow_config'' = JObj [])"
    using default_web_profile by blast
qed

lemma product_digital_valid:
  "validatePayPalProduct (product_with_type ''DIGITAL'') = Inr (product_with_type ''DIGITAL'')"
  by (simp add: validatePayPalProduct_def product_with_type_def invalid_def copy_string_def)

lemma bare_ref_payout_valid:
  "validateRefPayout bare_ref_payout = Inr (JObj
         [(''item_id'', JStr []),
          (''processing_state'', JObj [(''status'', JStr []), (''reason'', JUndefined)]),
          (''reference_id'', JStr ''R1''), (''reference_type'', JStr ''TRANSACTION_ID''),
          (''payout_amount'', JObj [(''currency_code'', JStr ''USD''), (''value'', JStr ''1.00'')]),
          (''payout_destination'', JStr ''D1'')])"
  by (simp add: validateRefPayout_def bare_ref_payout_def invalid_def Let_def)

theorem absent_fields_stay_absent_witness:
  "validatePayPalProduct (product_with_type ''DIGITAL'') = Inr (product_with_type ''DIGITAL'')
   \<and> field (product_with_type ''DIGITAL'') ''image_url'' = JUndefined
   \<and> keeps_absent (product_with_type ''DIGITAL'') (product_with_type ''DIGITAL'') [''image_url'', ''home_url'']
   \<and> field bare_ref_payout ''item_id'' = JUndefined
   \<and> (\<exists>out. validateRefPayout bare_ref_payout = Inr out \<and> field out ''item_id'' = JStr [])
   \<and> field (field (ref_payout_with_state (JObj [])) ''processing_state'') ''status'' = JUndefined
   \<and> \<not> truthy (field (field (ref_payout_with_state (JObj [])) ''processing_state'') ''status'')
   \<and> (\<exists>out. validateRefPayout (ref_payout_with_state (JObj [])) = Inr out
          \<and> field (field out ''processing_state'') ''status'' = JStr [])"
proof -
  have p: "validatePayPalProduct (product_with_type ''DIGITAL'') = Inr (product_with_type ''DIGITAL'')"
    by (rule product_digital_valid)
  have a: "field (product_with_type ''DIGITAL'') ''image_url'' = JUndefined"
    by (simp add: product_with_type_def)
  from absent_fields_stay_absent p
  have k: "keeps_absent (product_with_type ''DIGITAL'') (product_with_type ''DIGITAL'') [''image_url'', ''home_url'']"
    by blast
  have b: "field bare_ref_payout ''item_id'' = JUndefined"
    by (simp add: bare_ref_payout_def)
  obtain out where o: "validateRefPayout bare_ref_payout = Inr out"
    using bare_ref_payout_valid by blast
  from absent_fields_stay_absent o b have i: "field out ''item_id'' = JStr []"
    by blast
  have c: "field (field (ref_payout_with_state (JObj [])) ''processing_state'') ''status'' = JUndefined"
    by (simp add: ref_payout_with_state_def)
  then have c': "\<not> truthy (field (field (ref_payout_with_state (JObj [])) ''processing_state'') ''status'')"
    by simp
  obtain out2 where o2: "validateRefPayout (ref_payout_with_state (JObj [])) = Inr out2"
    using ref_payout_empty_state by blast
  from absent_fields_stay_absent o2 c
  have st: "field (field out2 ''processing_state'') ''status'' = JStr []"
    by blast
  from p a k b o i c c' o2 st show ?thesis
    by blast
qed

end
